theory Spec2Isabelle
  imports Complex_Main
begin

section \<open>Data model\<close>

text \<open>
  The module \<^verbatim>\<open>sctools/dimensionality.py\<close> wraps an annotated dataset (AnnData) and
  delegates the decomposition itself to the external routine \<^verbatim>\<open>sc.tl.pca\<close>.
  Python exceptions are values of type \<open>exn\<close>; a computation that may raise returns
  \<open>exn + 'a\<close> with \<open>Inl\<close> for the exception.
\<close>

datatype exn =
    ValueError string
  | KeyError string
  | IndexError string
  | AttributeError string
  | ExternalError string

text \<open>
  A dense two-dimensional array with its shape kept explicitly, so that an array with no
  rows still has a column count (as \<^verbatim>\<open>np.zeros((0, k))\<close> has).
\<close>

record matrix =
  nrows :: nat
  ncols :: nat
  rows :: "real list list"

definition wf_matrix :: "matrix \<Rightarrow> bool" where
  "wf_matrix M \<longleftrightarrow> length (rows M) = nrows M \<and> (\<forall>r \<in> set (rows M). length r = ncols M)"

type_synonym uns_entry = "string \<rightharpoonup> real list"

text \<open>
  The parts of an AnnData object the module touches: the cells by genes matrix \<open>X\<close>, the
  boolean columns of the per-gene table \<open>var\<close>, and the result slots \<open>obsm\<close>, \<open>varm\<close>
  and \<open>uns\<close>.
\<close>

record adata =
  X :: matrix
  var :: "string \<rightharpoonup> bool list"
  obsm :: "string \<rightharpoonup> matrix"
  varm :: "string \<rightharpoonup> matrix"
  uns :: "string \<rightharpoonup> uns_entry"

definition n_obs :: "adata \<Rightarrow> nat" where
  "n_obs a = nrows (X a)"

definition n_vars :: "adata \<Rightarrow> nat" where
  "n_vars a = ncols (X a)"

text \<open>One chart of the variance figure, and the figure with its two charts.\<close>

record axes =
  plot_x :: "int list"
  plot_y :: "real list"
  xlabel :: string
  ylabel :: string
  title :: string
  yscale_log :: bool
  xticks :: "int list"
  grid :: bool

record figure =
  fig_size :: "real \<times> real"
  ax1 :: axes
  ax2 :: axes
  threshold_marker :: "real option"

text \<open>What the module prints, shows or writes to disk.\<close>

datatype event =
    PrintRunning int
  | PrintUsing nat
  | Show figure
  | Savefig string figure

text \<open>
  Objects live in a store and are referred to by their index in it; \<open>self_adata\<close> is the
  reference held by the \<^verbatim>\<open>DimensionalityReduction\<close> instance.
\<close>

record state =
  heap :: "adata list"
  self_adata :: nat
  out :: "event list"

record pca_args =
  n_comps :: int
  use_highly_variable :: bool
  svd_solver :: string
  random_state :: int
  return_info :: bool
  inplace :: bool

datatype pca_ret =
    RetNone
  | RetInfo uns_entry
  | RetAdata nat
  | RetAdataInfo nat uns_entry

text \<open>
  The external routine \<^verbatim>\<open>sc.tl.pca(adata_use, n_comps=, svd_solver=, random_state=,
  return_info=)\<close> is a parameter of the model: it either raises or leaves the object it
  was given in a new state.
\<close>

type_synonym delegate = "adata \<Rightarrow> int \<Rightarrow> string \<Rightarrow> int \<Rightarrow> bool \<Rightarrow> exn + adata"

section \<open>Array operations used by the module\<close>

definition count_true :: "bool list \<Rightarrow> nat" where
  "count_true flags = length (filter id flags)"

definition select_mask :: "bool list \<Rightarrow> 'a list \<Rightarrow> 'a list" where
  "select_mask flags xs = map snd (filter fst (zip flags xs))"

text \<open>\<^verbatim>\<open>np.zeros((n, k))\<close>; a negative dimension raises.\<close>

definition np_zeros :: "nat \<Rightarrow> int \<Rightarrow> exn + matrix" where
  "np_zeros n k =
     (if k < 0 then Inl (ValueError ''negative dimensions are not allowed'')
      else Inr \<lparr>nrows = n, ncols = nat k, rows = replicate n (replicate (nat k) 0)\<rparr>)"

text \<open>
  Broadcasting a two-dimensional value to \<open>c\<close> rows and \<open>k\<close> columns: each dimension
  of the value equals the target's or is 1.
\<close>

definition broadcast_rows :: "matrix \<Rightarrow> nat \<Rightarrow> nat \<Rightarrow> exn + real list list" where
  "broadcast_rows B c k =
     (if (nrows B = c \<or> nrows B = 1) \<and> (ncols B = k \<or> ncols B = 1)
      then Inr (map (\<lambda>i. map (\<lambda>j. rows B ! (if nrows B = 1 then 0 else i)
                                         ! (if ncols B = 1 then 0 else j)) [0..<k]) [0..<c])
      else Inl (ValueError ''shape mismatch: value array could not be broadcast''))"

fun scatter :: "bool list \<Rightarrow> 'a list \<Rightarrow> 'a list \<Rightarrow> 'a list" where
  "scatter (True # m) (r # rs) (v # vs) = v # scatter m rs vs"
| "scatter (False # m) (r # rs) vs = r # scatter m rs vs"
| "scatter m rs vs = rs"

text \<open>\<^verbatim>\<open>A[mask] = B\<close> for a boolean row mask.\<close>

definition set_rows_mask :: "matrix \<Rightarrow> bool list \<Rightarrow> matrix \<Rightarrow> exn + matrix" where
  "set_rows_mask A flags B =
     (if length flags \<noteq> nrows A
      then Inl (IndexError ''boolean index did not match indexed array'')
      else case broadcast_rows B (count_true flags) (ncols A) of
             Inl e \<Rightarrow> Inl e
           | Inr vs \<Rightarrow> Inr (A\<lparr>rows := scatter flags (rows A) vs\<rparr>))"

definition select_cols :: "bool list \<Rightarrow> matrix \<Rightarrow> matrix" where
  "select_cols flags M = M\<lparr>ncols := count_true flags, rows := map (select_mask flags) (rows M)\<rparr>"

definition select_rows :: "bool list \<Rightarrow> matrix \<Rightarrow> matrix" where
  "select_rows flags M = M\<lparr>nrows := count_true flags, rows := select_mask flags (rows M)\<rparr>"

text \<open>
  \<^verbatim>\<open>adata[:, mask]\<close>: the genes where the mask holds, all cells. The per-gene table and
  the per-gene result slots are restricted with the matrix; the per-cell slots and the
  metadata are kept.
\<close>

definition subset_vars :: "adata \<Rightarrow> bool list \<Rightarrow> exn + adata" where
  "subset_vars a flags =
     (if length flags \<noteq> n_vars a
      then Inl (IndexError ''boolean index does not match the number of variables'')
      else Inr \<lparr>X = select_cols flags (X a),
                var = (\<lambda>c. map_option (select_mask flags) (var a c)),
                obsm = obsm a,
                varm = (\<lambda>k. map_option (select_rows flags) (varm a k)),
                uns = uns a\<rparr>)"

section \<open>run_pca\<close>

text \<open>The test of lines 153 and 169.\<close>

definition hv_requested :: "pca_args \<Rightarrow> adata \<Rightarrow> bool" where
  "hv_requested args a \<longleftrightarrow> use_highly_variable args \<and> var a ''highly_variable'' \<noteq> None"

text \<open>
  Lines 153 to 157. The result \<open>None\<close> stands for \<^verbatim>\<open>adata_use = adata\<close> (the same object);
  \<open>Some u\<close> is the restricted object, with what was printed.
\<close>

definition select_genes :: "pca_args \<Rightarrow> adata \<Rightarrow> exn + (adata option \<times> event list)" where
  "select_genes args a =
     (if hv_requested args a
      then (let flags = the (var a ''highly_variable'')
            in case subset_vars a flags of
                 Inl e \<Rightarrow> Inl e
               | Inr u \<Rightarrow> Inr (Some u, [PrintUsing (count_true flags)]))
      else Inr (None, []))"

text \<open>
  Lines 160 to 166. The routine changes the object it is given: \<^verbatim>\<open>adata\<close> itself when
  \<^verbatim>\<open>adata_use\<close> is the same object, the restricted object otherwise.
\<close>

definition call_pca :: "delegate \<Rightarrow> pca_args \<Rightarrow> adata option \<Rightarrow> adata \<Rightarrow> exn + (adata option \<times> adata)" where
  "call_pca pca args vu a =
     (case vu of
        None \<Rightarrow>
          (case pca a (n_comps args) (svd_solver args) (random_state args) (return_info args) of
             Inl e \<Rightarrow> Inl e
           | Inr a1 \<Rightarrow> Inr (None, a1))
      | Some u \<Rightarrow>
          (case pca u (n_comps args) (svd_solver args) (random_state args) (return_info args) of
             Inl e \<Rightarrow> Inl e
           | Inr u1 \<Rightarrow> Inr (Some u1, a)))"

text \<open>The object \<^verbatim>\<open>adata_use\<close> names, given the current \<^verbatim>\<open>adata\<close>.\<close>

definition adata_use :: "adata option \<Rightarrow> adata \<Rightarrow> adata" where
  "adata_use vu a = (case vu of None \<Rightarrow> a | Some u \<Rightarrow> u)"

text \<open>Lines 171 to 173: the loadings, scattered into a zero matrix of full height.\<close>

definition merge_PCs :: "int \<Rightarrow> adata option \<Rightarrow> adata \<Rightarrow> exn + adata" where
  "merge_PCs k vu a =
     (if varm (adata_use vu a) ''PCs'' \<noteq> None
      then (case np_zeros (n_vars a) k of
              Inl e \<Rightarrow> Inl e
            | Inr Z \<Rightarrow>
                (let a1 = a\<lparr>varm := (varm a)(''PCs'' \<mapsto> Z)\<rparr>
                 in case varm (adata_use vu a1) ''PCs'' of
                      None \<Rightarrow> Inl (KeyError ''PCs'')
                    | Some L \<Rightarrow>
                        (case var a1 ''highly_variable'' of
                           None \<Rightarrow> Inl (AttributeError ''highly_variable'')
                         | Some flags \<Rightarrow>
                             (case set_rows_mask Z flags L of
                                Inl e \<Rightarrow> Inl e
                              | Inr P \<Rightarrow> Inr (a1\<lparr>varm := (varm a1)(''PCs'' \<mapsto> P)\<rparr>)))))
      else Inr a)"

text \<open>Lines 170 to 175.\<close>

definition merge_back :: "int \<Rightarrow> adata option \<Rightarrow> adata \<Rightarrow> exn + adata" where
  "merge_back k vu a =
     (case obsm (adata_use vu a) ''X_pca'' of
        None \<Rightarrow> Inl (KeyError ''X_pca'')
      | Some E \<Rightarrow>
          (case merge_PCs k vu (a\<lparr>obsm := (obsm a)(''X_pca'' \<mapsto> E)\<rparr>) of
             Inl e \<Rightarrow> Inl e
           | Inr a2 \<Rightarrow>
               (case uns (adata_use vu a2) ''pca'' of
                  None \<Rightarrow> Inr a2
                | Some v \<Rightarrow> Inr (a2\<lparr>uns := (uns a2)(''pca'' \<mapsto> v)\<rparr>))))"

text \<open>Lines 178 to 185: what is returned, for the object at reference \<open>r\<close>.\<close>

definition pca_return :: "pca_args \<Rightarrow> nat \<Rightarrow> adata \<Rightarrow> pca_ret" where
  "pca_return args r a =
     (if inplace args
      then (case uns a ''pca'' of
              Some v \<Rightarrow> (if return_info args then RetInfo v else RetNone)
            | None \<Rightarrow> RetNone)
      else (case uns a ''pca'' of
              Some v \<Rightarrow> (if return_info args then RetAdataInfo r v else RetAdata r)
            | None \<Rightarrow> RetAdata r))"

text \<open>Line 150: the held object itself, or a fresh copy of it.\<close>

definition pick_adata :: "pca_args \<Rightarrow> state \<Rightarrow> nat \<times> state" where
  "pick_adata args st =
     (if inplace args then (self_adata st, st)
      else (length (heap st), st\<lparr>heap := heap st @ [heap st ! self_adata st]\<rparr>))"

definition run_pca :: "delegate \<Rightarrow> pca_args \<Rightarrow> state \<Rightarrow> exn + (pca_ret \<times> state)" where
  "run_pca pca args st =
     (let st0 = st\<lparr>out := out st @ [PrintRunning (n_comps args)]\<rparr>;
          (r, st1) = pick_adata args st0;
          a = heap st1 ! r
      in case select_genes args a of
           Inl e \<Rightarrow> Inl e
         | Inr (vu, evs) \<Rightarrow>
             (case call_pca pca args vu a of
                Inl e \<Rightarrow> Inl e
              | Inr (vu1, a1) \<Rightarrow>
                  (case (if hv_requested args a1 then merge_back (n_comps args) vu1 a1
                         else Inr a1) of
                     Inl e \<Rightarrow> Inl e
                   | Inr a2 \<Rightarrow>
                       Inr (pca_return args r a2,
                            st1\<lparr>heap := (heap st1)[r := a2], out := out st1 @ evs\<rparr>))))"

section \<open>plot_pca_variance\<close>

record plot_args =
  n_pcs :: int
  log_opt :: bool
  threshold :: "real option"
  figsize :: "real \<times> real"
  save_path :: "string option"
  return_fig :: bool

text \<open>The message of the error raised at line 241.\<close>

definition invalid_state_msg :: string where
  "invalid_state_msg =
     ''PCA hasn't been performed yet or variance_ratio information is missing.''"

text \<open>\<^verbatim>\<open>np.cumsum\<close>: the running sums.\<close>

fun cumsum_from :: "real \<Rightarrow> real list \<Rightarrow> real list" where
  "cumsum_from acc [] = []"
| "cumsum_from acc (x # xs) = (acc + x) # cumsum_from (acc + x) xs"

definition np_cumsum :: "real list \<Rightarrow> real list" where
  "np_cumsum xs = cumsum_from 0 xs"

text \<open>
  The slice \<^verbatim>\<open>xs[:n]\<close>: a negative stop counts from the end, and a stop beyond either
  end is cut to it.
\<close>

definition py_slice_to :: "'a list \<Rightarrow> int \<Rightarrow> 'a list" where
  "py_slice_to xs n =
     (if n < 0 then take (nat (int (length xs) + n)) xs else take (nat n) xs)"

text \<open>\<^verbatim>\<open>range(1, n + 1)\<close> and \<^verbatim>\<open>range(1, n + 1, 5)\<close>.\<close>

definition range_from_1 :: "int \<Rightarrow> int list" where
  "range_from_1 n = [1..n]"

definition range_from_1_step_5 :: "int \<Rightarrow> int list" where
  "range_from_1_step_5 n = filter (\<lambda>i. (i - 1) mod 5 = 0) [1..n]"

definition new_axes :: axes where
  "new_axes = \<lparr>plot_x = [], plot_y = [], xlabel = [], ylabel = [], title = [],
               yscale_log = False, xticks = [], grid = False\<rparr>"

text \<open>\<^verbatim>\<open>ax.plot(x, y, 'o-')\<close>: the two sequences must have the same length.\<close>

definition ax_plot :: "int list \<Rightarrow> real list \<Rightarrow> axes \<Rightarrow> exn + axes" where
  "ax_plot xs ys ax =
     (if length xs \<noteq> length ys
      then Inl (ValueError ''x and y must have same first dimension'')
      else Inr (ax\<lparr>plot_x := xs, plot_y := ys\<rparr>))"

text \<open>Line 248.\<close>

definition clamp_n_pcs :: "int \<Rightarrow> real list \<Rightarrow> int" where
  "clamp_n_pcs n variance_ratio = min n (int (length variance_ratio))"

text \<open>
  Lines 245 to 267: the two charts. The source text at hand ends inside the call that
  sets the ticks of the second chart, so those ticks are not part of the model.
\<close>

definition variance_figure :: "plot_args \<Rightarrow> real list \<Rightarrow> exn + figure" where
  "variance_figure args variance_ratio =
     (let variance_cumsum = np_cumsum variance_ratio;
          n = clamp_n_pcs (n_pcs args) variance_ratio
      in case ax_plot (range_from_1 n)
                (map (\<lambda>v. v * 100) (py_slice_to variance_ratio n)) new_axes of
           Inl e \<Rightarrow> Inl e
         | Inr p1 \<Rightarrow>
             (case ax_plot (range_from_1 n)
                     (map (\<lambda>v. v * 100) (py_slice_to variance_cumsum n)) new_axes of
                Inl e \<Rightarrow> Inl e
              | Inr p2 \<Rightarrow>
                  Inr \<lparr>fig_size = figsize args,
                       ax1 = p1\<lparr>xlabel := ''Principal Component'',
                                ylabel := ''Explained Variance Ratio (%)'',
                                title := ''PCA Explained Variance'',
                                yscale_log := log_opt args,
                                xticks := range_from_1_step_5 n,
                                grid := True\<rparr>,
                       ax2 = p2\<lparr>xlabel := ''Number of Principal Components'',
                                ylabel := ''Cumulative Explained Variance (%)'',
                                title := ''PCA Cumulative Explained Variance''\<rparr>,
                       threshold_marker = None\<rparr>))"

text \<open>
  Modelled from the spec: the end of \<^verbatim>\<open>plot_pca_variance\<close> after line 268 (the threshold
  marker, saving or showing, and the return value) is not in the source text at hand.
  The spec and the docstring say: an optional threshold marker line; the figure is saved
  to the given path, or displayed when no path is given; the figure handle is returned
  when \<^verbatim>\<open>return_fig\<close> is set.
\<close>

definition finish_figure :: "plot_args \<Rightarrow> figure \<Rightarrow> state \<Rightarrow> figure option \<times> state" where
  "finish_figure args fig st =
     (let fig1 = fig\<lparr>threshold_marker := threshold args\<rparr>;
          ev = (case save_path args of None \<Rightarrow> Show fig1 | Some p \<Rightarrow> Savefig p fig1)
      in (if return_fig args then Some fig1 else None, st\<lparr>out := out st @ [ev]\<rparr>))"

definition plot_pca_variance :: "plot_args \<Rightarrow> state \<Rightarrow> exn + (figure option \<times> state)" where
  "plot_pca_variance args st =
     (case uns (heap st ! self_adata st) ''pca'' of
        None \<Rightarrow> Inl (ValueError invalid_state_msg)
      | Some info \<Rightarrow>
          (case info ''variance_ratio'' of
             None \<Rightarrow> Inl (ValueError invalid_state_msg)
           | Some variance_ratio \<Rightarrow>
               (case variance_figure args variance_ratio of
                  Inl e \<Rightarrow> Inl e
                | Inr fig \<Rightarrow> Inr (finish_figure args fig st))))"

section \<open>Vocabulary of the statements\<close>

text \<open>The reference a call returns, if it returns one.\<close>

definition returned_ref :: "pca_ret \<Rightarrow> nat option" where
  "returned_ref rv = (case rv of RetAdata r \<Rightarrow> Some r | RetAdataInfo r v \<Rightarrow> Some r | _ \<Rightarrow> None)"

text \<open>The object that carries the result: the held one in place, the returned one otherwise.\<close>

definition result_ref :: "pca_args \<Rightarrow> pca_ret \<Rightarrow> state \<Rightarrow> nat" where
  "result_ref args rv st = (if inplace args then self_adata st else the (returned_ref rv))"

text \<open>The object handed to the external routine: \<^verbatim>\<open>adata_use\<close> after lines 153 to 157.\<close>

definition pca_input :: "pca_args \<Rightarrow> adata \<Rightarrow> exn + adata" where
  "pca_input args a =
     (case select_genes args a of Inl e \<Rightarrow> Inl e | Inr (vu, evs) \<Rightarrow> Inr (adata_use vu a))"

definition is_zero_row :: "real list \<Rightarrow> bool" where
  "is_zero_row row \<longleftrightarrow> list_all (\<lambda>x. x = 0) row"


subsection \<open>What is assumed of the external routine\<close>

text \<open>The routine leaves the per-gene table alone.\<close>

definition keeps_var :: "delegate \<Rightarrow> bool" where
  "keeps_var pca \<longleftrightarrow> (\<forall>a k s r i b. pca a k s r i = Inr b \<longrightarrow> var b = var a)"

text \<open>The embedding the routine stores has one row per cell and one column per component.\<close>

definition embedding_shape :: "delegate \<Rightarrow> bool" where
  "embedding_shape pca \<longleftrightarrow>
     (\<forall>a k s r i b. pca a k s r i = Inr b \<longrightarrow>
        (\<exists>E. obsm b ''X_pca'' = Some E \<and> nrows E = n_obs a \<and> int (ncols E) = k))"

text \<open>
  When the routine returns, the component count was not negative, the embedding is
  stored, loadings (if stored) have one row per gene it was given and one column per
  component, and the per-gene table is as before.
\<close>

definition delegate_conforms :: "delegate \<Rightarrow> bool" where
  "delegate_conforms pca \<longleftrightarrow>
     (\<forall>a k s r i b. pca a k s r i = Inr b \<longrightarrow>
        var b = var a \<and> 0 \<le> k \<and> obsm b ''X_pca'' \<noteq> None \<and>
        (\<forall>L. varm b ''PCs'' = Some L \<longrightarrow> nrows L = n_vars a \<and> int (ncols L) = k))"

text \<open>
  The data the routine reads, and the three result slots it writes. The routine is a
  function of the data and its parameters (the seed among them): it leaves the data as
  it is, and on equal data it fails alike or stores equal results.
\<close>

definition inputs_of ::
  "adata \<Rightarrow> matrix \<times> (string \<rightharpoonup> bool list) \<times> (string \<rightharpoonup> matrix) \<times> (string \<rightharpoonup> matrix) \<times> (string \<rightharpoonup> uns_entry)" where
  "inputs_of a =
     (X a, var a, (obsm a)(''X_pca'' := None), (varm a)(''PCs'' := None), (uns a)(''pca'' := None))"

definition results_of :: "adata \<Rightarrow> matrix option \<times> matrix option \<times> uns_entry option" where
  "results_of a = (obsm a ''X_pca'', varm a ''PCs'', uns a ''pca'')"

definition pure_delegate :: "delegate \<Rightarrow> bool" where
  "pure_delegate pca \<longleftrightarrow>
     (\<forall>a a' k s r i b. inputs_of a = inputs_of a' \<longrightarrow> pca a k s r i = Inr b \<longrightarrow>
        inputs_of b = inputs_of a \<and>
        (\<exists>b'. pca a' k s r i = Inr b' \<and> results_of b' = results_of b))"

section \<open>A stand-in for the external routine\<close>

text \<open>
  A concrete routine to instantiate the theorems with: it projects the data onto the
  first \<open>k\<close> gene axes. On data that is centred and varies along the first gene axis
  only (as in the examples below) this is the principal component analysis of the data:
  the scores are the first columns, the loadings are unit vectors, and the variance
  ratio of a component is its share of the total sum of squares.
\<close>

definition known_solvers :: "string list" where
  "known_solvers = [''arpack'', ''randomized'', ''auto'', ''full'']"

definition axis_ratio :: "real list list \<Rightarrow> nat \<Rightarrow> real list" where
  "axis_ratio rs k =
     map (\<lambda>c. (\<Sum>row\<leftarrow>rs. (row ! c)\<^sup>2) / (\<Sum>row\<leftarrow>rs. \<Sum>x\<leftarrow>row. x\<^sup>2)) [0..<k]"

definition axis_pca :: delegate where
  "axis_pca a k s r i =
     (if s \<notin> set known_solvers then Inl (ValueError ''unknown svd_solver'')
      else if k < 1 \<or> int (min (n_obs a) (n_vars a)) < k
      then Inl (ValueError ''n_components out of range'')
      else Inr (a\<lparr>obsm := (obsm a)(''X_pca'' \<mapsto>
                      \<lparr>nrows = n_obs a, ncols = nat k, rows = map (take (nat k)) (rows (X a))\<rparr>),
                  varm := (varm a)(''PCs'' \<mapsto>
                      \<lparr>nrows = n_vars a, ncols = nat k,
                       rows = map (\<lambda>g. map (\<lambda>c. if c = g then 1 else 0) [0..<nat k])
                                [0..<n_vars a]\<rparr>),
                  uns := (uns a)(''pca'' \<mapsto>
                      [''variance_ratio'' \<mapsto> axis_ratio (rows (X a)) (nat k)])\<rparr>))"

section \<open>Example inputs\<close>

text \<open>Two cells, three genes, the first and the third flagged as highly variable.\<close>

definition ex_adata :: adata where
  "ex_adata = \<lparr>X = \<lparr>nrows = 2, ncols = 3, rows = [[-1, 0, 0], [1, 0, 0]]\<rparr>,
               var = [''highly_variable'' \<mapsto> [True, False, True]],
               obsm = Map.empty, varm = Map.empty, uns = Map.empty\<rparr>"

definition ex_state :: state where
  "ex_state = \<lparr>heap = [ex_adata], self_adata = 0, out = []\<rparr>"

definition ex_args :: pca_args where
  "ex_args = \<lparr>n_comps = 2, use_highly_variable = True, svd_solver = ''auto'',
              random_state = 42, return_info = False, inplace = True\<rparr>"

definition ex_result :: adata where
  "ex_result = ex_adata\<lparr>
      obsm := [''X_pca'' \<mapsto> \<lparr>nrows = 2, ncols = 2, rows = [[-1, 0], [1, 0]]\<rparr>],
      varm := [''PCs'' \<mapsto> \<lparr>nrows = 3, ncols = 2, rows = [[1, 0], [0, 0], [0, 1]]\<rparr>],
      uns := [''pca'' \<mapsto> [''variance_ratio'' \<mapsto> [1, 0]]]\<rparr>"

definition ex_state_after :: state where
  "ex_state_after = ex_state\<lparr>heap := [ex_result], out := [PrintRunning 2, PrintUsing 2]\<rparr>"

text \<open>The restricted object of the example, before and after the stand-in routine.\<close>

definition ex_view :: adata where
  "ex_view = \<lparr>X = \<lparr>nrows = 2, ncols = 2, rows = [[-1, 0], [1, 0]]\<rparr>,
              var = [''highly_variable'' \<mapsto> [True, True]],
              obsm = Map.empty, varm = Map.empty, uns = Map.empty\<rparr>"

definition ex_loadings :: matrix where
  "ex_loadings = \<lparr>nrows = 2, ncols = 2, rows = [[1, 0], [0, 1]]\<rparr>"

definition ex_view_after :: adata where
  "ex_view_after = ex_view\<lparr>
      obsm := [''X_pca'' \<mapsto> \<lparr>nrows = 2, ncols = 2, rows = [[-1, 0], [1, 0]]\<rparr>],
      varm := [''PCs'' \<mapsto> ex_loadings],
      uns := [''pca'' \<mapsto> [''variance_ratio'' \<mapsto> [1, 0]]]\<rparr>"

text \<open>
  Two cells, two genes, both flagged; the second gene is constant. With one component
  the analysis gives the scores \<open>-1\<close> and \<open>1\<close>, the loading vector \<open>(1, 0)\<close> and the
  variance ratio \<open>1\<close>.
\<close>

definition cex_adata :: adata where
  "cex_adata = \<lparr>X = \<lparr>nrows = 2, ncols = 2, rows = [[-1, 0], [1, 0]]\<rparr>,
                var = [''highly_variable'' \<mapsto> [True, True]],
                obsm = Map.empty, varm = Map.empty, uns = Map.empty\<rparr>"

definition cex_state :: state where
  "cex_state = \<lparr>heap = [cex_adata], self_adata = 0, out = []\<rparr>"

definition cex_args :: pca_args where
  "cex_args = \<lparr>n_comps = 1, use_highly_variable = True, svd_solver = ''arpack'',
               random_state = 42, return_info = False, inplace = True\<rparr>"

definition cex_result :: adata where
  "cex_result = cex_adata\<lparr>
      obsm := [''X_pca'' \<mapsto> \<lparr>nrows = 2, ncols = 1, rows = [[-1], [1]]\<rparr>],
      varm := [''PCs'' \<mapsto> \<lparr>nrows = 2, ncols = 1, rows = [[1], [0]]\<rparr>],
      uns := [''pca'' \<mapsto> [''variance_ratio'' \<mapsto> [1]]]\<rparr>"

text \<open>The example without the flag column, and a call that names no known solver.\<close>

definition plain_adata :: adata where
  "plain_adata = ex_adata\<lparr>var := Map.empty\<rparr>"

definition plain_state :: state where
  "plain_state = \<lparr>heap = [plain_adata], self_adata = 0, out = []\<rparr>"

definition plain_result :: adata where
  "plain_result = plain_adata\<lparr>
      obsm := [''X_pca'' \<mapsto> \<lparr>nrows = 2, ncols = 2, rows = [[-1, 0], [1, 0]]\<rparr>],
      varm := [''PCs'' \<mapsto> \<lparr>nrows = 3, ncols = 2, rows = [[1, 0], [0, 1], [0, 0]]\<rparr>],
      uns := [''pca'' \<mapsto> [''variance_ratio'' \<mapsto> [1, 0]]]\<rparr>"

definition bad_solver_args :: pca_args where
  "bad_solver_args = ex_args\<lparr>svd_solver := ''bogus''\<rparr>"


definition ex_plot_args :: plot_args where
  "ex_plot_args = \<lparr>n_pcs = 50, log_opt = False, threshold = None, figsize = (10, 4),
                   save_path = None, return_fig = False\<rparr>"

definition save_plot_args :: plot_args where
  "save_plot_args = ex_plot_args\<lparr>save_path := Some ''pca_variance.png'', return_fig := True\<rparr>"


definition ex_info :: uns_entry where
  "ex_info = [''variance_ratio'' \<mapsto> [1, 0]]"

text \<open>
  Two cells, three genes, only the first flagged: two components are within the bound
  of the full data, not of the restricted data (two cells, one gene).
\<close>

definition narrow_adata :: adata where
  "narrow_adata = \<lparr>X = \<lparr>nrows = 2, ncols = 3, rows = [[-1, 0, 0], [1, 0, 0]]\<rparr>,
                   var = [''highly_variable'' \<mapsto> [True, False, False]],
                   obsm = Map.empty, varm = Map.empty, uns = Map.empty\<rparr>"

definition narrow_state :: state where
  "narrow_state = \<lparr>heap = [narrow_adata], self_adata = 0, out = []\<rparr>"

definition narrow_result :: adata where
  "narrow_result = narrow_adata\<lparr>
      obsm := [''X_pca'' \<mapsto> \<lparr>nrows = 2, ncols = 2, rows = [[-1, 0], [1, 0]]\<rparr>],
      varm := [''PCs'' \<mapsto> \<lparr>nrows = 3, ncols = 2, rows = [[1, 0], [0, 1], [0, 0]]\<rparr>],
      uns := [''pca'' \<mapsto> [''variance_ratio'' \<mapsto> [1, 0]]]\<rparr>"

section \<open>Properties of the array operations\<close>

lemma length_scatter: "length (scatter m rs vs) = length rs"
  by (induction m rs vs rule: scatter.induct) auto

lemma set_scatter: "set (scatter m rs vs) \<subseteq> set rs \<union> set vs"
  by (induction m rs vs rule: scatter.induct) auto

lemma scatter_unflagged:
  "length m = length rs \<Longrightarrow> g < length rs \<Longrightarrow> \<not> m ! g \<Longrightarrow> scatter m rs vs ! g = rs ! g"
proof (induction m rs vs arbitrary: g rule: scatter.induct)
  case (1 m r rs v vs)
  then show ?case by (cases g) auto
next
  case (2 m r rs vs)
  then show ?case by (cases g) auto
qed auto

lemma scatter_flagged:
  "length m = length rs \<Longrightarrow> length vs = count_true m \<Longrightarrow> g < length rs \<Longrightarrow> m ! g \<Longrightarrow>
     scatter m rs vs ! g \<in> set vs"
proof (induction m arbitrary: rs vs g)
  case Nil
  then show ?case by simp
next
  case (Cons b m)
  then obtain r rs' where rs: "rs = r # rs'" by (cases rs) auto
  show ?case
  proof (cases b)
    case True
    with Cons.prems obtain v vs' where vs: "vs = v # vs'"
      by (cases vs) (auto simp: count_true_def)
    show ?thesis
      using Cons.prems Cons.IH[of rs' vs'] True by (cases g) (auto simp: rs vs count_true_def)
  next
    case False
    show ?thesis
      using Cons.prems Cons.IH[of rs' vs] False by (cases g) (auto simp: rs count_true_def)
  qed
qed

lemma select_scatter:
  "length m = length rs \<Longrightarrow> length vs = count_true m \<Longrightarrow> select_mask m (scatter m rs vs) = vs"
proof (induction m arbitrary: rs vs)
  case Nil
  then show ?case by (simp add: count_true_def select_mask_def)
next
  case (Cons b m)
  then obtain r rs' where rs: "rs = r # rs'" by (cases rs) auto
  show ?case
  proof (cases b)
    case True
    with Cons.prems obtain v vs' where vs: "vs = v # vs'"
      by (cases vs) (auto simp: count_true_def)
    show ?thesis
      using Cons.prems Cons.IH[of rs' vs'] True
      by (auto simp: rs vs count_true_def select_mask_def)
  next
    case False
    show ?thesis
      using Cons.prems Cons.IH[of rs' vs] False
      by (auto simp: rs count_true_def select_mask_def)
  qed
qed

lemma broadcast_rows_shape:
  "broadcast_rows B c k = Inr vs \<Longrightarrow> length vs = c \<and> (\<forall>v \<in> set vs. length v = k)"
  by (auto simp: broadcast_rows_def split: if_splits)

lemma broadcast_rows_exact:
  assumes "wf_matrix B" "nrows B = c" "ncols B = k"
  shows "broadcast_rows B c k = Inr (rows B)"
proof -
  have len: "length (rows B) = c" and row: "\<And>i. i < c \<Longrightarrow> length (rows B ! i) = k"
    using assms by (auto simp: wf_matrix_def)
  have "map (\<lambda>i. map (\<lambda>j. rows B ! (if nrows B = 1 then 0 else i)
                                  ! (if ncols B = 1 then 0 else j)) [0..<k]) [0..<c]
        = map (\<lambda>i. map (\<lambda>j. rows B ! i ! j) [0..<k]) [0..<c]"
    using assms(2,3) by (intro map_cong refl) auto
  also have "\<dots> = map (\<lambda>i. rows B ! i) [0..<c]"
  proof (intro map_cong refl)
    fix i assume "i \<in> set [0..<c]"
    then have "length (rows B ! i) = k" using row by simp
    then show "map (\<lambda>j. rows B ! i ! j) [0..<k] = rows B ! i"
      using map_nth[of "rows B ! i"] by simp
  qed
  also have "\<dots> = rows B"
    using map_nth[of "rows B"] len by simp
  finally show ?thesis using assms(2,3) by (simp add: broadcast_rows_def)
qed

lemma is_zero_row_replicate: "is_zero_row (replicate k 0)"
  by (simp add: is_zero_row_def list_all_iff)

text \<open>A masked assignment into a fresh zero matrix, when it succeeds.\<close>

lemma set_rows_mask_zeros:
  assumes "np_zeros n k = Inr Z" "set_rows_mask Z flags L = Inr P"
  shows "wf_matrix P" "nrows P = n" "int (ncols P) = k" "length flags = n"
    "\<forall>g<n. \<not> flags ! g \<longrightarrow> is_zero_row (rows P ! g)"
    "wf_matrix L \<and> nrows L = count_true flags \<and> int (ncols L) = k \<longrightarrow>
       select_mask flags (rows P) = rows L \<and>
       ((\<forall>row \<in> set (rows L). \<not> is_zero_row row) \<longrightarrow>
          (\<forall>g<n. is_zero_row (rows P ! g) \<longleftrightarrow> \<not> flags ! g))"
proof -
  from assms(1) have k: "0 \<le> k"
    and Z: "Z = \<lparr>nrows = n, ncols = nat k, rows = replicate n (replicate (nat k) 0)\<rparr>"
    by (auto simp: np_zeros_def split: if_splits)
  from assms(2) obtain vs where len: "length flags = n"
    and vs: "broadcast_rows L (count_true flags) (nat k) = Inr vs"
    and P: "P = Z\<lparr>rows := scatter flags (rows Z) vs\<rparr>"
    by (auto simp: set_rows_mask_def Z split: if_splits sum.splits)
  have vsl: "length vs = count_true flags" "\<forall>v \<in> set vs. length v = nat k"
    using broadcast_rows_shape[OF vs] by auto
  show "nrows P = n" "int (ncols P) = k" "length flags = n"
    using k len by (simp_all add: P Z)
  show "wf_matrix P"
    using set_scatter[of flags "rows Z" vs] vsl
    by (auto simp: wf_matrix_def P Z length_scatter)
  show un: "\<forall>g<n. \<not> flags ! g \<longrightarrow> is_zero_row (rows P ! g)"
    using len by (simp add: P Z scatter_unflagged is_zero_row_replicate)
  show "wf_matrix L \<and> nrows L = count_true flags \<and> int (ncols L) = k \<longrightarrow>
       select_mask flags (rows P) = rows L \<and>
       ((\<forall>row \<in> set (rows L). \<not> is_zero_row row) \<longrightarrow>
          (\<forall>g<n. is_zero_row (rows P ! g) \<longleftrightarrow> \<not> flags ! g))"
  proof (intro impI, elim conjE)
    assume L: "wf_matrix L" "nrows L = count_true flags" "int (ncols L) = k"
    then have "broadcast_rows L (count_true flags) (nat k) = Inr (rows L)"
      by (intro broadcast_rows_exact) auto
    with vs have vs_eq: "vs = rows L" by simp
    have sel: "select_mask flags (rows P) = rows L"
      using len vsl by (simp add: P Z select_scatter vs_eq)
    have "\<forall>g<n. is_zero_row (rows P ! g) \<longleftrightarrow> \<not> flags ! g"
      if nz: "\<forall>row \<in> set (rows L). \<not> is_zero_row row"
    proof (intro allI impI)
      fix g assume g: "g < n"
      show "is_zero_row (rows P ! g) \<longleftrightarrow> \<not> flags ! g"
      proof (cases "flags ! g")
        case True
        then have "rows P ! g \<in> set vs"
          using scatter_flagged[of flags "rows Z" vs g] len vsl g by (simp add: P Z)
        with nz True show ?thesis by (simp add: vs_eq)
      next
        case False
        with un g show ?thesis by simp
      qed
    qed
    with sel show "select_mask flags (rows P) = rows L \<and>
       ((\<forall>row \<in> set (rows L). \<not> is_zero_row row) \<longrightarrow>
          (\<forall>g<n. is_zero_row (rows P ! g) \<longleftrightarrow> \<not> flags ! g))" by blast
  qed
qed

lemma n_vars_subset: "subset_vars a flags = Inr u \<Longrightarrow> n_vars u = count_true flags"
  by (auto simp: subset_vars_def n_vars_def select_cols_def split: if_splits)

section \<open>The steps of run_pca\<close>

lemma run_pca_InrE:
  assumes "run_pca pca args st = Inr (rv, st')"
  obtains r st1 vu evs vu1 a1 a2 where
    "pick_adata args (st\<lparr>out := out st @ [PrintRunning (n_comps args)]\<rparr>) = (r, st1)"
    "select_genes args (heap st1 ! r) = Inr (vu, evs)"
    "call_pca pca args vu (heap st1 ! r) = Inr (vu1, a1)"
    "(if hv_requested args a1 then merge_back (n_comps args) vu1 a1 else Inr a1) = Inr a2"
    "rv = pca_return args r a2"
    "st' = st1\<lparr>heap := (heap st1)[r := a2], out := out st1 @ evs\<rparr>"
  using assms
  by (auto simp: run_pca_def Let_def split: prod.splits sum.splits)

lemma run_pca_InrI:
  assumes "pick_adata args (st\<lparr>out := out st @ [PrintRunning (n_comps args)]\<rparr>) = (r, st0)"
    "select_genes args (heap st0 ! r) = Inr (vu, evs)"
    "call_pca pca args vu (heap st0 ! r) = Inr (vu1, a1)"
    "(if hv_requested args a1 then merge_back (n_comps args) vu1 a1 else Inr a1) = Inr a2"
  shows "run_pca pca args st =
           Inr (pca_return args r a2, st0\<lparr>heap := (heap st0)[r := a2], out := out st0 @ evs\<rparr>)"
  using assms(4) by (simp add: run_pca_def Let_def assms(1,2,3))

lemma pick_adata_props:
  assumes "pick_adata args st0 = (r, st1)" "self_adata st0 < length (heap st0)"
  shows "r < length (heap st1)" "heap st1 ! r = heap st0 ! self_adata st0"
    "self_adata st1 = self_adata st0" "out st1 = out st0"
    "inplace args \<Longrightarrow> r = self_adata st0 \<and> st1 = st0"
    "\<not> inplace args \<Longrightarrow>
       r = length (heap st0) \<and> heap st1 = heap st0 @ [heap st0 ! self_adata st0]"
  using assms by (auto simp: pick_adata_def split: if_splits)

lemma picked_adata:
  "pick_adata args st0 = (r, st1) \<Longrightarrow> heap st1 ! r = heap st0 ! self_adata st0"
  by (auto simp: pick_adata_def split: if_splits)

lemma result_ref_eq:
  assumes "pick_adata args st0 = (r, st1)"
  shows "result_ref args (pca_return args r a2) (st1\<lparr>heap := h, out := e\<rparr>) = r"
  using assms
  by (auto simp: result_ref_def returned_ref_def pca_return_def pick_adata_def
      split: if_splits option.splits)

lemma merge_PCs_obsm: "merge_PCs k vu a = Inr a2 \<Longrightarrow> obsm a2 = obsm a"
  by (auto simp: merge_PCs_def Let_def split: if_splits sum.splits option.splits)

lemma merge_back_obsm:
  "merge_back k vu a = Inr a2 \<Longrightarrow>
     obsm a2 ''X_pca'' = obsm (adata_use vu a) ''X_pca'' \<and> obsm a2 ''X_pca'' \<noteq> None"
  by (auto simp: merge_back_def split: option.splits sum.splits dest!: merge_PCs_obsm)

lemma select_genes_n_obs:
  "select_genes args a = Inr (vu, evs) \<Longrightarrow> n_obs (adata_use vu a) = n_obs a"
  by (auto simp: select_genes_def Let_def subset_vars_def adata_use_def n_obs_def
      select_cols_def split: if_splits sum.splits)

lemma select_genes_view:
  assumes "use_highly_variable args" "var a ''highly_variable'' = Some flags"
    "select_genes args a = Inr (vu, evs)"
  shows "\<exists>u. vu = Some u \<and> subset_vars a flags = Inr u"
  using assms by (auto simp: select_genes_def hv_requested_def Let_def split: sum.splits)

lemma call_pca_cases:
  assumes "call_pca pca args vu a = Inr (vu1, a1)"
  shows "\<exists>b. pca (adata_use vu a) (n_comps args) (svd_solver args) (random_state args)
               (return_info args) = Inr b \<and>
     adata_use vu1 a1 = b \<and> (vu = None \<longrightarrow> vu1 = None \<and> a1 = b) \<and>
     (vu \<noteq> None \<longrightarrow> vu1 = Some b \<and> a1 = a)"
  using assms by (auto simp: call_pca_def adata_use_def split: option.splits sum.splits)

lemma merge_back_view_PCs:
  assumes "merge_back k (Some b) a = Inr a2" "varm b ''PCs'' = Some L"
    "var a ''highly_variable'' = Some flags"
  shows "\<exists>Z P. np_zeros (n_vars a) k = Inr Z \<and> set_rows_mask Z flags L = Inr P \<and>
           varm a2 ''PCs'' = Some P"
  using assms
  by (auto simp: merge_back_def merge_PCs_def adata_use_def Let_def n_vars_def
      split: option.splits sum.splits if_splits)

lemma merge_back_view_ok:
  assumes "obsm b ''X_pca'' \<noteq> None" "0 \<le> k"
    "var a ''highly_variable'' = Some flags" "length flags = n_vars a"
    "\<forall>L. varm b ''PCs'' = Some L \<longrightarrow> nrows L = count_true flags \<and> int (ncols L) = k"
  shows "\<exists>a2. merge_back k (Some b) a = Inr a2"
  using assms
  by (auto simp: merge_back_def merge_PCs_def adata_use_def Let_def np_zeros_def n_vars_def
      set_rows_mask_def broadcast_rows_def split: option.splits sum.splits)

text \<open>
  When the routine returns on the object it is handed and its results have the shapes
  lines 170 to 173 rely on, the call returns.
\<close>

lemma run_pca_returns:
  assumes "delegate_conforms pca"
    and "\<forall>flags. var (heap st ! self_adata st) ''highly_variable'' = Some flags \<longrightarrow>
           length flags = n_vars (heap st ! self_adata st)"
    and "pca_input args (heap st ! self_adata st) = Inr u"
    and "pca u (n_comps args) (svd_solver args) (random_state args) (return_info args) = Inr b"
  shows "\<exists>rv st'. run_pca pca args st = Inr (rv, st')"
proof -
  let ?a = "heap st ! self_adata st"
  obtain r st1 where
    p: "pick_adata args (st\<lparr>out := out st @ [PrintRunning (n_comps args)]\<rparr>) = (r, st1)"
    by (cases "pick_adata args (st\<lparr>out := out st @ [PrintRunning (n_comps args)]\<rparr>)") auto
  have a: "heap st1 ! r = ?a" using picked_adata[OF p] by simp
  from assms(3) obtain vu evs where sg: "select_genes args ?a = Inr (vu, evs)"
    and u: "u = adata_use vu ?a"
    by (auto simp: pca_input_def split: sum.splits)
  from assms(1,4) have b: "var b = var u" "0 \<le> n_comps args" "obsm b ''X_pca'' \<noteq> None"
    "\<forall>L. varm b ''PCs'' = Some L \<longrightarrow> nrows L = n_vars u \<and> int (ncols L) = n_comps args"
    unfolding delegate_conforms_def by blast+
  have "\<exists>vu1 a1 a2. call_pca pca args vu ?a = Inr (vu1, a1) \<and>
      (if hv_requested args a1 then merge_back (n_comps args) vu1 a1 else Inr a1) = Inr a2"
  proof (cases vu)
    case None
    then have "\<not> hv_requested args ?a" using sg
      by (auto simp: select_genes_def Let_def split: if_splits sum.splits)
    then have "\<not> hv_requested args b" using b(1) None u
      by (simp add: hv_requested_def adata_use_def)
    moreover have "call_pca pca args vu ?a = Inr (None, b)"
      using assms(4) None u by (simp add: call_pca_def adata_use_def)
    ultimately show ?thesis by auto
  next
    case (Some u')
    with sg obtain flags where fl: "var ?a ''highly_variable'' = Some flags"
      and hv: "hv_requested args ?a" and sub: "subset_vars ?a flags = Inr u'"
      by (auto simp: select_genes_def Let_def hv_requested_def split: if_splits sum.splits)
    have uu: "u' = u" using Some u by (simp add: adata_use_def)
    have "\<exists>a2. merge_back (n_comps args) (Some b) ?a = Inr a2"
      using b fl assms(2) n_vars_subset[OF sub] uu
      by (intro merge_back_view_ok[where flags = flags]) auto
    moreover have "call_pca pca args vu ?a = Inr (Some b, ?a)"
      using assms(4) Some uu by (simp add: call_pca_def)
    ultimately show ?thesis using hv by auto
  qed
  then obtain vu1 a1 a2 where c: "call_pca pca args vu (heap st1 ! r) = Inr (vu1, a1)"
    and m: "(if hv_requested args a1 then merge_back (n_comps args) vu1 a1 else Inr a1) = Inr a2"
    unfolding a by blast
  from run_pca_InrI[OF p sg[folded a] c m] show ?thesis by blast
qed

section \<open>The stand-in routine and the examples\<close>

lemma axis_pca_embedding_shape: "embedding_shape axis_pca"
  by (auto simp: embedding_shape_def axis_pca_def split: if_splits)

lemma axis_pca_keeps_var: "keeps_var axis_pca"
  by (auto simp: keeps_var_def axis_pca_def split: if_splits)

lemma axis_pca_conforms: "delegate_conforms axis_pca"
  by (auto simp: delegate_conforms_def axis_pca_def split: if_splits)

lemma ex_self_valid: "self_adata ex_state < length (heap ex_state)"
  by (simp add: ex_state_def)

lemma ex_run: "run_pca axis_pca ex_args ex_state = Inr (RetNone, ex_state_after)"
  apply (simp add: run_pca_def pick_adata_def ex_state_def ex_args_def select_genes_def
      hv_requested_def Let_def ex_state_after_def)
  apply (simp add: ex_adata_def subset_vars_def n_vars_def select_cols_def select_mask_def
      count_true_def)
  apply (simp add: call_pca_def axis_pca_def known_solvers_def n_obs_def n_vars_def upt_rec
      axis_ratio_def hv_requested_def merge_back_def adata_use_def merge_PCs_def np_zeros_def
      set_rows_mask_def broadcast_rows_def count_true_def pca_return_def ex_result_def
      ex_adata_def eval_nat_numeral)
  done

lemma ex_pca_input: "pca_input ex_args ex_adata = Inr ex_view"
  by (auto simp: pca_input_def select_genes_def hv_requested_def ex_args_def ex_adata_def
      Let_def subset_vars_def n_vars_def adata_use_def ex_view_def select_cols_def
      select_mask_def count_true_def fun_eq_iff)

lemma ex_delegate: "axis_pca ex_view 2 ''auto'' 42 False = Inr ex_view_after"
  by (simp add: axis_pca_def known_solvers_def ex_view_def ex_view_after_def n_obs_def
      n_vars_def axis_ratio_def ex_loadings_def eval_nat_numeral upt_rec)

lemma plain_run:
  "run_pca axis_pca (ex_args\<lparr>use_highly_variable := h\<rparr>) plain_state =
     Inr (RetNone, plain_state\<lparr>heap := [plain_result], out := [PrintRunning 2]\<rparr>)"
  apply (simp add: run_pca_def pick_adata_def plain_state_def ex_args_def select_genes_def
      hv_requested_def Let_def plain_adata_def)
  apply (simp add: call_pca_def axis_pca_def known_solvers_def n_obs_def n_vars_def upt_rec
      axis_ratio_def hv_requested_def pca_return_def plain_result_def plain_adata_def
      ex_adata_def eval_nat_numeral)
  done

lemma narrow_self_valid: "self_adata narrow_state < length (heap narrow_state)"
  by (simp add: narrow_state_def)

lemma narrow_run:
  "run_pca axis_pca ex_args narrow_state = Inl (ValueError ''n_components out of range'')"
  apply (simp add: run_pca_def pick_adata_def narrow_state_def ex_args_def select_genes_def
      hv_requested_def Let_def)
  apply (simp add: narrow_adata_def subset_vars_def n_vars_def select_cols_def select_mask_def
      count_true_def)
  apply (simp add: call_pca_def axis_pca_def known_solvers_def n_obs_def n_vars_def)
  done

lemma narrow_plain_run:
  "run_pca axis_pca (ex_args\<lparr>use_highly_variable := False\<rparr>) narrow_state =
     Inr (RetNone, narrow_state\<lparr>heap := [narrow_result], out := [PrintRunning 2]\<rparr>)"
  apply (simp add: run_pca_def pick_adata_def narrow_state_def ex_args_def select_genes_def
      hv_requested_def Let_def)
  apply (simp add: call_pca_def axis_pca_def known_solvers_def n_obs_def n_vars_def upt_rec
      axis_ratio_def hv_requested_def pca_return_def narrow_result_def narrow_adata_def
      eval_nat_numeral)
  done

section \<open>The embedding\<close>

text \<open>
  Claim C2, as the code has it. Let the external routine store an embedding with one row
  per cell it was given and one column per requested component. Whenever \<open>run_pca\<close>
  returns, the embedding in \<open>obsm['X_pca']\<close> of the result object has as many rows as
  the full dataset has cells and \<open>n_comps\<close> columns, with or without gene restriction:
  the restriction drops genes, never cells. And \<open>run_pca\<close> returns whenever the routine
  returns on the object it is handed (the flagged genes only, under restriction) with
  results of the shapes lines 170 to 173 rely on, the flag column having one entry per
  gene.
\<close>

theorem run_pca_embedding_shape:
  assumes "embedding_shape pca" and "self_adata st < length (heap st)"
  shows "(\<forall>rv st'. run_pca pca args st = Inr (rv, st') \<longrightarrow>
            (\<exists>E. obsm (heap st' ! result_ref args rv st') ''X_pca'' = Some E \<and>
               nrows E = n_obs (heap st ! self_adata st) \<and> int (ncols E) = n_comps args)) \<and>
         (delegate_conforms pca \<and>
          (\<forall>flags. var (heap st ! self_adata st) ''highly_variable'' = Some flags \<longrightarrow>
             length flags = n_vars (heap st ! self_adata st)) \<and>
          (\<exists>u b. pca_input args (heap st ! self_adata st) = Inr u \<and>
             pca u (n_comps args) (svd_solver args) (random_state args) (return_info args)
               = Inr b) \<longrightarrow>
          (\<exists>rv st'. run_pca pca args st = Inr (rv, st')))"
proof -
  have shape: "\<exists>E. obsm (heap st' ! result_ref args rv st') ''X_pca'' = Some E \<and>
           nrows E = n_obs (heap st ! self_adata st) \<and> int (ncols E) = n_comps args"
    if run: "run_pca pca args st = Inr (rv, st')" for rv st'
  proof -
    from run obtain r st1 vu evs vu1 a1 a2 where
      p: "pick_adata args (st\<lparr>out := out st @ [PrintRunning (n_comps args)]\<rparr>) = (r, st1)"
      and s: "select_genes args (heap st1 ! r) = Inr (vu, evs)"
      and c: "call_pca pca args vu (heap st1 ! r) = Inr (vu1, a1)"
      and m: "(if hv_requested args a1 then merge_back (n_comps args) vu1 a1 else Inr a1)
                = Inr a2"
      and rv: "rv = pca_return args r a2"
      and st': "st' = st1\<lparr>heap := (heap st1)[r := a2], out := out st1 @ evs\<rparr>"
      by (rule run_pca_InrE)
    have r: "r < length (heap st1)" and a: "heap st1 ! r = heap st ! self_adata st"
      using pick_adata_props(1,2)[OF p] assms(2) by simp_all
    from c obtain b where
      b: "pca (adata_use vu (heap st1 ! r)) (n_comps args) (svd_solver args)
            (random_state args) (return_info args) = Inr b"
      and u: "adata_use vu1 a1 = b" and al: "vu = None \<longrightarrow> vu1 = None \<and> a1 = b"
      using call_pca_cases by blast
    from assms(1) b obtain E where E: "obsm b ''X_pca'' = Some E"
      "nrows E = n_obs (adata_use vu (heap st1 ! r))" "int (ncols E) = n_comps args"
      unfolding embedding_shape_def by blast
    have "obsm a2 ''X_pca'' = Some E"
    proof (cases "hv_requested args a1")
      case True
      with m have "merge_back (n_comps args) vu1 a1 = Inr a2" by simp
      from merge_back_obsm[OF this] u E show ?thesis by simp
    next
      case False
      with m have a2: "a2 = a1" by simp
      have "vu = None" using s False c
        by (auto simp: select_genes_def call_pca_def Let_def
            split: if_splits sum.splits option.splits)
      with al a2 E show ?thesis by simp
    qed
    moreover have "heap st' ! result_ref args rv st' = a2"
      using r by (simp add: st' rv result_ref_eq[OF p])
    ultimately show ?thesis using E select_genes_n_obs[OF s] a by auto
  qed
  have ret: "\<exists>rv st'. run_pca pca args st = Inr (rv, st')"
    if "delegate_conforms pca"
      "\<forall>flags. var (heap st ! self_adata st) ''highly_variable'' = Some flags \<longrightarrow>
         length flags = n_vars (heap st ! self_adata st)"
      "pca_input args (heap st ! self_adata st) = Inr u"
      "pca u (n_comps args) (svd_solver args) (random_state args) (return_info args) = Inr b"
    for u b
    using that by (rule run_pca_returns)
  show ?thesis using shape ret by blast
qed

theorem run_pca_embedding_shape_witness:
  "embedding_shape axis_pca \<and> self_adata ex_state < length (heap ex_state) \<and>
   delegate_conforms axis_pca \<and>
   var (heap ex_state ! self_adata ex_state) ''highly_variable'' = Some [True, False, True] \<and>
   length [True, False, True] = n_vars (heap ex_state ! self_adata ex_state) \<and>
   pca_input ex_args (heap ex_state ! self_adata ex_state) = Inr ex_view \<and>
   axis_pca ex_view (n_comps ex_args) (svd_solver ex_args) (random_state ex_args)
     (return_info ex_args) = Inr ex_view_after \<and>
   (\<exists>rv st'. run_pca axis_pca ex_args ex_state = Inr (rv, st')) \<and>
   run_pca axis_pca ex_args ex_state = Inr (RetNone, ex_state_after) \<and>
   (\<exists>E. obsm (heap ex_state_after ! result_ref ex_args RetNone ex_state_after) ''X_pca'' = Some E \<and>
        nrows E = n_obs (heap ex_state ! self_adata ex_state) \<and> int (ncols E) = n_comps ex_args) \<and>
   self_adata plain_state < length (heap plain_state) \<and>
   run_pca axis_pca (ex_args\<lparr>use_highly_variable := False\<rparr>) plain_state =
     Inr (RetNone, plain_state\<lparr>heap := [plain_result], out := [PrintRunning 2]\<rparr>) \<and>
   (\<exists>E. obsm (heap (plain_state\<lparr>heap := [plain_result], out := [PrintRunning 2]\<rparr>) !
               result_ref (ex_args\<lparr>use_highly_variable := False\<rparr>) RetNone
                 (plain_state\<lparr>heap := [plain_result], out := [PrintRunning 2]\<rparr>)) ''X_pca''
          = Some E \<and>
        nrows E = n_obs (heap plain_state ! self_adata plain_state) \<and>
        int (ncols E) = n_comps (ex_args\<lparr>use_highly_variable := False\<rparr>))"
proof -
  have v: "self_adata plain_state < length (heap plain_state)"
    by (simp add: plain_state_def)
  have f: "var (heap ex_state ! self_adata ex_state) ''highly_variable''
             = Some [True, False, True]"
    "length [True, False, True] = n_vars (heap ex_state ! self_adata ex_state)"
    by (simp_all add: ex_state_def ex_adata_def n_vars_def)
  have w: "\<forall>flags. var (heap ex_state ! self_adata ex_state) ''highly_variable'' = Some flags
          \<longrightarrow> length flags = n_vars (heap ex_state ! self_adata ex_state)"
    using f by simp
  have i: "pca_input ex_args (heap ex_state ! self_adata ex_state) = Inr ex_view"
    using ex_pca_input by (simp add: ex_state_def)
  have d: "axis_pca ex_view (n_comps ex_args) (svd_solver ex_args) (random_state ex_args)
     (return_info ex_args) = Inr ex_view_after"
    using ex_delegate by (simp add: ex_args_def)
  note t1 = run_pca_embedding_shape[OF axis_pca_embedding_shape ex_self_valid, of ex_args]
  note t2 = run_pca_embedding_shape[OF axis_pca_embedding_shape v,
      of "ex_args\<lparr>use_highly_variable := False\<rparr>"]
  have r: "\<exists>rv st'. run_pca axis_pca ex_args ex_state = Inr (rv, st')"
    using t1 axis_pca_conforms w i d by blast
  have s1: "\<exists>E. obsm (heap ex_state_after ! result_ref ex_args RetNone ex_state_after) ''X_pca''
          = Some E \<and>
        nrows E = n_obs (heap ex_state ! self_adata ex_state) \<and> int (ncols E) = n_comps ex_args"
    using t1 ex_run by blast
  have s2: "\<exists>E. obsm (heap (plain_state\<lparr>heap := [plain_result], out := [PrintRunning 2]\<rparr>) !
               result_ref (ex_args\<lparr>use_highly_variable := False\<rparr>) RetNone
                 (plain_state\<lparr>heap := [plain_result], out := [PrintRunning 2]\<rparr>)) ''X_pca''
          = Some E \<and>
        nrows E = n_obs (heap plain_state ! self_adata plain_state) \<and>
        int (ncols E) = n_comps (ex_args\<lparr>use_highly_variable := False\<rparr>)"
    using t2 plain_run[of False] by blast
  show ?thesis
    using axis_pca_embedding_shape ex_self_valid axis_pca_conforms f i d r ex_run s1 v
      plain_run[of False] s2
    by blast
qed

text \<open>
  Claim C2 as stated fails under restriction: the routine is handed the flagged genes
  only, so a component count within the bound of the full data can be beyond the bound
  of what the routine gets. Below there are two cells and three genes, one of them
  flagged, and two components are requested: the restricted call raises and stores no
  embedding, while the unrestricted call returns.
\<close>

theorem run_pca_embedding_shape_counterexample:
  "n_obs (heap narrow_state ! self_adata narrow_state) = 2 \<and>
   n_vars (heap narrow_state ! self_adata narrow_state) = 3 \<and>
   var (heap narrow_state ! self_adata narrow_state) ''highly_variable''
     = Some [True, False, False] \<and>
   n_comps ex_args = 2 \<and> use_highly_variable ex_args \<and>
   n_comps ex_args \<le> int (min (n_obs (heap narrow_state ! self_adata narrow_state))
                            (n_vars (heap narrow_state ! self_adata narrow_state))) \<and>
   run_pca axis_pca ex_args narrow_state = Inl (ValueError ''n_components out of range'') \<and>
   run_pca axis_pca (ex_args\<lparr>use_highly_variable := False\<rparr>) narrow_state =
     Inr (RetNone, narrow_state\<lparr>heap := [narrow_result], out := [PrintRunning 2]\<rparr>)"
  using narrow_run narrow_plain_run
  by (simp add: narrow_state_def narrow_adata_def n_obs_def n_vars_def ex_args_def)

section \<open>The loadings\<close>

text \<open>
  Claim C1, as the code has it. Let the dataset have a boolean \<open>highly_variable\<close> column,
  let \<open>run_pca\<close> be called with \<open>use_highly_variable=True\<close> and return, and let the
  external routine have left loadings \<open>L\<close> on the restricted object. Then \<open>varm['PCs']\<close>
  of the result object has one row per gene of the full dataset and \<open>n_comps\<close> columns,
  and the row of every gene whose flag is False is all zero. If \<open>L\<close> has one row per
  flagged gene and \<open>n_comps\<close> columns, the rows of the flagged genes are the rows of \<open>L\<close>
  in order; so the all-zero rows are exactly the unflagged genes when no row of \<open>L\<close> is
  all zero.
\<close>

theorem run_pca_loadings:
  assumes "self_adata st < length (heap st)"
    and "use_highly_variable args"
    and "var (heap st ! self_adata st) ''highly_variable'' = Some flags"
    and "run_pca pca args st = Inr (rv, st')"
    and "pca_input args (heap st ! self_adata st) = Inr u"
    and "pca u (n_comps args) (svd_solver args) (random_state args) (return_info args) = Inr b"
    and "varm b ''PCs'' = Some L"
  shows "\<exists>P. varm (heap st' ! result_ref args rv st') ''PCs'' = Some P \<and> wf_matrix P \<and>
           nrows P = n_vars (heap st ! self_adata st) \<and> int (ncols P) = n_comps args \<and>
           (\<forall>g < n_vars (heap st ! self_adata st). \<not> flags ! g \<longrightarrow> is_zero_row (rows P ! g)) \<and>
           (wf_matrix L \<and> nrows L = count_true flags \<and> int (ncols L) = n_comps args \<longrightarrow>
              select_mask flags (rows P) = rows L \<and>
              ((\<forall>row \<in> set (rows L). \<not> is_zero_row row) \<longrightarrow>
                 (\<forall>g < n_vars (heap st ! self_adata st).
                    is_zero_row (rows P ! g) \<longleftrightarrow> \<not> flags ! g)))"
proof -
  let ?a = "heap st ! self_adata st"
  from assms(4) obtain r st1 vu evs vu1 a1 a2 where
    p: "pick_adata args (st\<lparr>out := out st @ [PrintRunning (n_comps args)]\<rparr>) = (r, st1)"
    and s: "select_genes args (heap st1 ! r) = Inr (vu, evs)"
    and c: "call_pca pca args vu (heap st1 ! r) = Inr (vu1, a1)"
    and m: "(if hv_requested args a1 then merge_back (n_comps args) vu1 a1 else Inr a1) = Inr a2"
    and rv: "rv = pca_return args r a2"
    and st': "st' = st1\<lparr>heap := (heap st1)[r := a2], out := out st1 @ evs\<rparr>"
    by (rule run_pca_InrE)
  have r: "r < length (heap st1)" and a: "heap st1 ! r = ?a"
    using pick_adata_props(1,2)[OF p] assms(1) by simp_all
  from select_genes_view[OF assms(2) assms(3)[folded a] s] obtain u' where
    vu: "vu = Some u'" by blast
  with s assms(5) have u': "u' = u"
    by (simp add: pca_input_def a adata_use_def)
  from c vu u' assms(6) have c1: "vu1 = Some b" "a1 = ?a"
    by (auto simp: call_pca_def a split: sum.splits)
  have "hv_requested args a1" using assms(2,3) c1 by (simp add: hv_requested_def)
  with m c1 have mb: "merge_back (n_comps args) (Some b) ?a = Inr a2" by simp
  from merge_back_view_PCs[OF mb assms(7) assms(3)] obtain Z P where
    Z: "np_zeros (n_vars ?a) (n_comps args) = Inr Z"
    and P: "set_rows_mask Z flags L = Inr P" and vP: "varm a2 ''PCs'' = Some P"
    by blast
  have res: "heap st' ! result_ref args rv st' = a2"
    using r by (simp add: st' rv result_ref_eq[OF p])
  show ?thesis
    using set_rows_mask_zeros[OF Z P] vP res by auto
qed

theorem run_pca_loadings_witness:
  "self_adata ex_state < length (heap ex_state) \<and> use_highly_variable ex_args \<and>
   var (heap ex_state ! self_adata ex_state) ''highly_variable'' = Some [True, False, True] \<and>
   run_pca axis_pca ex_args ex_state = Inr (RetNone, ex_state_after) \<and>
   pca_input ex_args (heap ex_state ! self_adata ex_state) = Inr ex_view \<and>
   axis_pca ex_view (n_comps ex_args) (svd_solver ex_args) (random_state ex_args)
     (return_info ex_args) = Inr ex_view_after \<and>
   varm ex_view_after ''PCs'' = Some ex_loadings \<and>
   wf_matrix ex_loadings \<and> nrows ex_loadings = count_true [True, False, True] \<and>
   int (ncols ex_loadings) = n_comps ex_args \<and>
   rows ex_loadings = [[1, 0], [0, 1]] \<and> \<not> is_zero_row [1, 0] \<and> \<not> is_zero_row [0, 1] \<and>
   (\<exists>P. varm (heap ex_state_after ! result_ref ex_args RetNone ex_state_after) ''PCs'' = Some P \<and>
        wf_matrix P \<and> nrows P = 3 \<and> ncols P = 2 \<and>
        select_mask [True, False, True] (rows P) = rows ex_loadings \<and>
        (\<forall>g<3. is_zero_row (rows P ! g) \<longleftrightarrow> \<not> [True, False, True] ! g))"
proof -
  have h: "use_highly_variable ex_args" by (simp add: ex_args_def)
  have f: "var (heap ex_state ! self_adata ex_state) ''highly_variable''
             = Some [True, False, True]"
    by (simp add: ex_state_def ex_adata_def)
  have i: "pca_input ex_args (heap ex_state ! self_adata ex_state) = Inr ex_view"
    using ex_pca_input by (simp add: ex_state_def)
  have d: "axis_pca ex_view (n_comps ex_args) (svd_solver ex_args) (random_state ex_args)
     (return_info ex_args) = Inr ex_view_after"
    using ex_delegate by (simp add: ex_args_def)
  have l: "varm ex_view_after ''PCs'' = Some ex_loadings" by (simp add: ex_view_after_def)
  have w: "wf_matrix ex_loadings" "nrows ex_loadings = count_true [True, False, True]"
    "int (ncols ex_loadings) = n_comps ex_args"
    "\<forall>row \<in> set (rows ex_loadings). \<not> is_zero_row row"
    by (simp_all add: wf_matrix_def ex_loadings_def count_true_def ex_args_def is_zero_row_def)
  have n: "n_vars (heap ex_state ! self_adata ex_state) = 3" "n_comps ex_args = 2"
    by (simp_all add: ex_state_def ex_adata_def n_vars_def ex_args_def)
  from run_pca_loadings[OF ex_self_valid h f ex_run i d l] w n
  have "\<exists>P. varm (heap ex_state_after ! result_ref ex_args RetNone ex_state_after) ''PCs'' = Some P \<and>
        wf_matrix P \<and> nrows P = 3 \<and> ncols P = 2 \<and>
        select_mask [True, False, True] (rows P) = rows ex_loadings \<and>
        (\<forall>g<3. is_zero_row (rows P ! g) \<longleftrightarrow> \<not> [True, False, True] ! g)"
    by auto
  moreover have "rows ex_loadings = [[1, 0], [0, 1]]" "\<not> is_zero_row [1, 0]" "\<not> is_zero_row [0, 1]"
    by (simp_all add: ex_loadings_def is_zero_row_def)
  ultimately show ?thesis using ex_self_valid h f ex_run i d l w by blast
qed

text \<open>
  Claim C1 as stated fails where a flagged gene gets an all-zero row of loadings from the
  decomposition: both genes below are flagged, the second is constant, and its row of
  \<open>varm['PCs']\<close> is all zero.
\<close>

theorem run_pca_loadings_counterexample:
  "var (heap cex_state ! self_adata cex_state) ''highly_variable'' = Some [True, True] \<and>
   run_pca axis_pca cex_args cex_state =
     Inr (RetNone, cex_state\<lparr>heap := [cex_result], out := [PrintRunning 1, PrintUsing 2]\<rparr>) \<and>
   varm cex_result ''PCs'' = Some \<lparr>nrows = 2, ncols = 1, rows = [[1], [0]]\<rparr> \<and>
   [True, True] ! 1 \<and> is_zero_row ([[1], [0]] ! 1)"
  apply (simp add: run_pca_def pick_adata_def cex_state_def cex_args_def select_genes_def
      hv_requested_def Let_def is_zero_row_def)
  apply (simp add: cex_adata_def subset_vars_def n_vars_def select_cols_def select_mask_def
      count_true_def)
  apply (simp add: call_pca_def axis_pca_def known_solvers_def n_obs_def n_vars_def upt_rec
      axis_ratio_def hv_requested_def merge_back_def adata_use_def merge_PCs_def np_zeros_def
      set_rows_mask_def broadcast_rows_def count_true_def pca_return_def cex_result_def
      cex_adata_def eval_nat_numeral)
  done

section \<open>The flag column is absent\<close>

lemma plain_bad_run:
  "run_pca axis_pca (bad_solver_args\<lparr>use_highly_variable := True\<rparr>) plain_state =
     Inl (ValueError ''unknown svd_solver'')"
  by (simp add: run_pca_def pick_adata_def plain_state_def bad_solver_args_def ex_args_def
      select_genes_def hv_requested_def Let_def plain_adata_def call_pca_def axis_pca_def
      known_solvers_def)

text \<open>
  Claim C3. When the per-gene table has no \<open>highly_variable\<close> column (and the external
  routine does not add one), a call with \<open>use_highly_variable=True\<close> has the same outcome
  as the call with \<open>use_highly_variable=False\<close> and the same remaining parameters: the
  same return value, the same objects and the same output, or the same exception. It
  raises nothing of its own: an exception it raises is the one the external routine
  raised on the unrestricted dataset.
\<close>

theorem run_pca_flag_absent:
  assumes "keeps_var pca" and "var (heap st ! self_adata st) ''highly_variable'' = None"
  shows "run_pca pca (args\<lparr>use_highly_variable := True\<rparr>) st =
           run_pca pca (args\<lparr>use_highly_variable := False\<rparr>) st \<and>
         (\<forall>e. run_pca pca (args\<lparr>use_highly_variable := True\<rparr>) st = Inl e \<longrightarrow>
            pca (heap st ! self_adata st) (n_comps args) (svd_solver args) (random_state args)
              (return_info args) = Inl e)"
proof -
  let ?a = "heap st ! self_adata st"
  let ?d = "pca ?a (n_comps args) (svd_solver args) (random_state args) (return_info args)"
  have keep: "\<And>b. ?d = Inr b \<Longrightarrow> var b ''highly_variable'' = None"
    using assms by (auto simp: keeps_var_def)
  have run: "run_pca pca (args\<lparr>use_highly_variable := h\<rparr>) st =
      (case ?d of Inl e \<Rightarrow> Inl e
       | Inr b \<Rightarrow>
           (let rs = pick_adata (args\<lparr>use_highly_variable := h\<rparr>)
                       (st\<lparr>out := out st @ [PrintRunning (n_comps args)]\<rparr>)
            in Inr (pca_return (args\<lparr>use_highly_variable := h\<rparr>) (fst rs) b,
                    (snd rs)\<lparr>heap := (heap (snd rs))[fst rs := b],
                             out := out (snd rs) @ []\<rparr>)))" for h
  proof -
    obtain r st1 where p: "pick_adata (args\<lparr>use_highly_variable := h\<rparr>)
                       (st\<lparr>out := out st @ [PrintRunning (n_comps args)]\<rparr>) = (r, st1)"
      by (cases "pick_adata (args\<lparr>use_highly_variable := h\<rparr>)
                       (st\<lparr>out := out st @ [PrintRunning (n_comps args)]\<rparr>)") auto
    have a: "heap st1 ! r = ?a" using picked_adata[OF p] by simp
    have sg: "select_genes (args\<lparr>use_highly_variable := h\<rparr>) ?a = Inr (None, [])"
      using assms(2) by (simp add: select_genes_def hv_requested_def)
    show ?thesis
      using keep
      by (cases ?d) (simp_all add: run_pca_def p a sg call_pca_def hv_requested_def Let_def)
  qed
  have same: "pick_adata (args\<lparr>use_highly_variable := True\<rparr>) s =
      pick_adata (args\<lparr>use_highly_variable := False\<rparr>) s" for s
    by (simp add: pick_adata_def)
  have ret: "pca_return (args\<lparr>use_highly_variable := True\<rparr>) r b =
      pca_return (args\<lparr>use_highly_variable := False\<rparr>) r b" for r b
    by (simp add: pca_return_def split: option.splits)
  show ?thesis
    by (cases ?d) (simp_all add: run same ret Let_def)
qed

theorem run_pca_flag_absent_witness:
  "keeps_var axis_pca \<and>
   var (heap plain_state ! self_adata plain_state) ''highly_variable'' = None \<and>
   run_pca axis_pca (ex_args\<lparr>use_highly_variable := True\<rparr>) plain_state =
     run_pca axis_pca (ex_args\<lparr>use_highly_variable := False\<rparr>) plain_state \<and>
   run_pca axis_pca (ex_args\<lparr>use_highly_variable := True\<rparr>) plain_state =
     Inr (RetNone, plain_state\<lparr>heap := [plain_result], out := [PrintRunning 2]\<rparr>) \<and>
   run_pca axis_pca (bad_solver_args\<lparr>use_highly_variable := True\<rparr>) plain_state =
     Inl (ValueError ''unknown svd_solver'') \<and>
   axis_pca (heap plain_state ! self_adata plain_state) (n_comps bad_solver_args)
     (svd_solver bad_solver_args) (random_state bad_solver_args) (return_info bad_solver_args)
     = Inl (ValueError ''unknown svd_solver'')"
proof -
  have v: "var (heap plain_state ! self_adata plain_state) ''highly_variable'' = None"
    by (simp add: plain_state_def plain_adata_def)
  from run_pca_flag_absent[OF axis_pca_keeps_var v, of ex_args]
  have "run_pca axis_pca (ex_args\<lparr>use_highly_variable := True\<rparr>) plain_state =
     run_pca axis_pca (ex_args\<lparr>use_highly_variable := False\<rparr>) plain_state"
    by blast
  moreover from run_pca_flag_absent[OF axis_pca_keeps_var v, of bad_solver_args] plain_bad_run
  have "axis_pca (heap plain_state ! self_adata plain_state) (n_comps bad_solver_args)
     (svd_solver bad_solver_args) (random_state bad_solver_args) (return_info bad_solver_args)
     = Inl (ValueError ''unknown svd_solver'')"
    by blast
  ultimately show ?thesis
    using axis_pca_keeps_var v plain_run[of True] plain_bad_run by blast
qed

section \<open>Exceptions\<close>

lemma bad_pca_input: "pca_input bad_solver_args ex_adata = Inr ex_view"
  by (auto simp: pca_input_def select_genes_def hv_requested_def bad_solver_args_def
      ex_args_def ex_adata_def Let_def subset_vars_def n_vars_def adata_use_def ex_view_def
      select_cols_def select_mask_def count_true_def fun_eq_iff)

lemma bad_delegate:
  "axis_pca ex_view (n_comps bad_solver_args) (svd_solver bad_solver_args)
     (random_state bad_solver_args) (return_info bad_solver_args)
     = Inl (ValueError ''unknown svd_solver'')"
  by (simp add: axis_pca_def known_solvers_def bad_solver_args_def ex_args_def)

text \<open>
  Claim C7. An exception the external routine raises on the object it is handed is the
  outcome of \<open>run_pca\<close>, unchanged. And \<open>run_pca\<close> raises nothing else: when the flag
  column has one entry per gene and the routine, where it returns, has stored an
  embedding, loadings of one row per gene it was given and \<open>n_comps\<close> columns (if any),
  and has left the per-gene table alone, then every exception of \<open>run_pca\<close> is one the
  routine raised.
\<close>

theorem run_pca_raises_only_delegate:
  "(\<forall>u e. pca_input args (heap st ! self_adata st) = Inr u \<longrightarrow>
       pca u (n_comps args) (svd_solver args) (random_state args) (return_info args) = Inl e \<longrightarrow>
       run_pca pca args st = Inl e) \<and>
   (delegate_conforms pca \<and>
    (\<forall>flags. var (heap st ! self_adata st) ''highly_variable'' = Some flags \<longrightarrow>
       length flags = n_vars (heap st ! self_adata st)) \<longrightarrow>
    (\<forall>e. run_pca pca args st = Inl e \<longrightarrow>
       (\<exists>u. pca_input args (heap st ! self_adata st) = Inr u \<and>
          pca u (n_comps args) (svd_solver args) (random_state args) (return_info args) = Inl e)))"
proof -
  let ?a = "heap st ! self_adata st"
  obtain r st1 where
    p: "pick_adata args (st\<lparr>out := out st @ [PrintRunning (n_comps args)]\<rparr>) = (r, st1)"
    by (cases "pick_adata args (st\<lparr>out := out st @ [PrintRunning (n_comps args)]\<rparr>)") auto
  have a: "heap st1 ! r = ?a" using picked_adata[OF p] by simp
  have fwd: "run_pca pca args st = Inl e"
    if "pca_input args ?a = Inr u"
      "pca u (n_comps args) (svd_solver args) (random_state args) (return_info args) = Inl e"
    for u e
    using that
    by (auto simp: run_pca_def p a pca_input_def call_pca_def adata_use_def
        split: sum.splits option.splits)
  have bwd: "\<exists>u. pca_input args ?a = Inr u \<and>
          pca u (n_comps args) (svd_solver args) (random_state args) (return_info args) = Inl e"
    if conf: "delegate_conforms pca"
      and wf: "\<forall>flags. var ?a ''highly_variable'' = Some flags \<longrightarrow> length flags = n_vars ?a"
      and run: "run_pca pca args st = Inl e" for e
  proof -
    have "\<exists>vu evs. select_genes args ?a = Inr (vu, evs)"
      using wf by (cases "var ?a ''highly_variable''")
        (auto simp: select_genes_def hv_requested_def subset_vars_def Let_def)
    then obtain vu evs where sg: "select_genes args ?a = Inr (vu, evs)" by blast
    then have inp: "pca_input args ?a = Inr (adata_use vu ?a)"
      by (simp add: pca_input_def)
    show ?thesis
    proof (cases "pca (adata_use vu ?a) (n_comps args) (svd_solver args) (random_state args)
                    (return_info args)")
      case (Inl e')
      with fwd[OF inp Inl] run inp show ?thesis by simp
    next
      case (Inr b)
      from conf Inr have b: "var b = var (adata_use vu ?a)" "0 \<le> n_comps args"
        "obsm b ''X_pca'' \<noteq> None"
        "\<forall>L. varm b ''PCs'' = Some L \<longrightarrow>
           nrows L = n_vars (adata_use vu ?a) \<and> int (ncols L) = n_comps args"
        unfolding delegate_conforms_def by blast+
      show ?thesis
      proof (cases vu)
        case None
        then have "\<not> hv_requested args ?a" using sg
          by (auto simp: select_genes_def Let_def split: if_splits sum.splits)
        then have "\<not> hv_requested args b" using b(1) None
          by (simp add: hv_requested_def adata_use_def)
        with run Inr None show ?thesis
          by (simp add: run_pca_def p a sg call_pca_def adata_use_def)
      next
        case (Some u)
        with sg obtain flags where fl: "var ?a ''highly_variable'' = Some flags"
          and hv: "hv_requested args ?a" and sub: "subset_vars ?a flags = Inr u"
          by (auto simp: select_genes_def Let_def hv_requested_def split: if_splits sum.splits)
        have "\<exists>a2. merge_back (n_comps args) (Some b) ?a = Inr a2"
          using b fl wf n_vars_subset[OF sub] Some
          by (intro merge_back_view_ok[where flags = flags]) (auto simp: adata_use_def)
        with run Inr Some hv show ?thesis
          by (auto simp: run_pca_def p a sg call_pca_def adata_use_def)
      qed
    qed
  qed
  show ?thesis using fwd bwd by blast
qed

theorem run_pca_raises_only_delegate_witness:
  "pca_input bad_solver_args (heap ex_state ! self_adata ex_state) = Inr ex_view \<and>
   axis_pca ex_view (n_comps bad_solver_args) (svd_solver bad_solver_args)
     (random_state bad_solver_args) (return_info bad_solver_args)
     = Inl (ValueError ''unknown svd_solver'') \<and>
   run_pca axis_pca bad_solver_args ex_state = Inl (ValueError ''unknown svd_solver'') \<and>
   delegate_conforms axis_pca \<and>
   var (heap ex_state ! self_adata ex_state) ''highly_variable'' = Some [True, False, True] \<and>
   length [True, False, True] = n_vars (heap ex_state ! self_adata ex_state) \<and>
   (\<exists>u. pca_input bad_solver_args (heap ex_state ! self_adata ex_state) = Inr u \<and>
        axis_pca u (n_comps bad_solver_args) (svd_solver bad_solver_args)
          (random_state bad_solver_args) (return_info bad_solver_args)
          = Inl (ValueError ''unknown svd_solver''))"
proof -
  have i: "pca_input bad_solver_args (heap ex_state ! self_adata ex_state) = Inr ex_view"
    using bad_pca_input by (simp add: ex_state_def)
  have f: "var (heap ex_state ! self_adata ex_state) ''highly_variable''
             = Some [True, False, True]"
    "length [True, False, True] = n_vars (heap ex_state ! self_adata ex_state)"
    by (simp_all add: ex_state_def ex_adata_def n_vars_def)
  note t = run_pca_raises_only_delegate[of bad_solver_args ex_state axis_pca]
  from t i bad_delegate
  have r: "run_pca axis_pca bad_solver_args ex_state = Inl (ValueError ''unknown svd_solver'')"
    by blast
  have "\<forall>flags. var (heap ex_state ! self_adata ex_state) ''highly_variable'' = Some flags
          \<longrightarrow> length flags = n_vars (heap ex_state ! self_adata ex_state)"
    using f by simp
  with t axis_pca_conforms r
  have "\<exists>u. pca_input bad_solver_args (heap ex_state ! self_adata ex_state) = Inr u \<and>
        axis_pca u (n_comps bad_solver_args) (svd_solver bad_solver_args)
          (random_state bad_solver_args) (return_info bad_solver_args)
          = Inl (ValueError ''unknown svd_solver'')"
    by blast
  with i bad_delegate r axis_pca_conforms f show ?thesis by blast
qed

section \<open>In place or on a copy\<close>









section \<open>Calling twice\<close>

lemma map_eq_off_key:
  assumes "m(k := None) = m'(k := None)" "m k = m' k"
  shows "m = m'"
proof (rule ext)
  fix x show "m x = m' x"
    using assms(2) fun_cong[OF assms(1), of x] by (cases "x = k") simp_all
qed

lemma inputs_of_eqD:
  assumes "inputs_of a = inputs_of b"
  shows "X a = X b" "var a = var b"
    "(obsm a)(''X_pca'' := None) = (obsm b)(''X_pca'' := None)"
    "(varm a)(''PCs'' := None) = (varm b)(''PCs'' := None)"
    "(uns a)(''pca'' := None) = (uns b)(''pca'' := None)"
  using assms unfolding inputs_of_def prod.inject by simp_all

lemma results_of_eqD:
  assumes "results_of a = results_of b"
  shows "obsm a ''X_pca'' = obsm b ''X_pca''" "varm a ''PCs'' = varm b ''PCs''"
    "uns a ''pca'' = uns b ''pca''"
  using assms unfolding results_of_def prod.inject by simp_all

lemma adata_eqI:
  assumes "inputs_of a = inputs_of b" "results_of a = results_of b"
  shows "a = b"
proof -
  have 1: "X a = X b" by (rule inputs_of_eqD(1)[OF assms(1)])
  have 2: "var a = var b" by (rule inputs_of_eqD(2)[OF assms(1)])
  have 3: "obsm a = obsm b"
    using inputs_of_eqD(3)[OF assms(1)] results_of_eqD(1)[OF assms(2)] by (rule map_eq_off_key)
  have 4: "varm a = varm b"
    using inputs_of_eqD(4)[OF assms(1)] results_of_eqD(2)[OF assms(2)] by (rule map_eq_off_key)
  have 5: "uns a = uns b"
    using inputs_of_eqD(5)[OF assms(1)] results_of_eqD(3)[OF assms(2)] by (rule map_eq_off_key)
  show ?thesis
    by (rule adata.equality) (simp_all add: 1 2 3 4 5)
qed

lemma subset_vars_inputs:
  assumes "inputs_of a' = inputs_of a" "subset_vars a flags = Inr u"
  shows "\<exists>u'. subset_vars a' flags = Inr u' \<and> inputs_of u' = inputs_of u"
proof -
  from assms(1) have e: "X a' = X a" "var a' = var a"
    "(obsm a')(''X_pca'' := None) = (obsm a)(''X_pca'' := None)"
    "(varm a')(''PCs'' := None) = (varm a)(''PCs'' := None)"
    "(uns a')(''pca'' := None) = (uns a)(''pca'' := None)"
    by (simp_all add: inputs_of_def)
  have v: "(\<lambda>k. map_option (select_rows flags) (varm a' k))(''PCs'' := None)
         = (\<lambda>k. map_option (select_rows flags) (varm a k))(''PCs'' := None)"
  proof (rule ext)
    fix x show "((\<lambda>k. map_option (select_rows flags) (varm a' k))(''PCs'' := None)) x
         = ((\<lambda>k. map_option (select_rows flags) (varm a k))(''PCs'' := None)) x"
      using fun_cong[OF e(4), of x] by (cases "x = ''PCs''") auto
  qed
  from assms(2) show ?thesis
    using e v by (auto simp: subset_vars_def n_vars_def inputs_of_def split: if_splits)
qed

lemma merge_back_results:
  "results_of b' = results_of b \<Longrightarrow> merge_back k (Some b') a = merge_back k (Some b) a"
  by (simp add: merge_back_def merge_PCs_def adata_use_def results_of_def Let_def
      split: option.splits sum.splits)

lemma merge_back_view_again:
  assumes "merge_back k (Some b) a = Inr a2"
  shows "merge_back k (Some b) a2 = Inr a2 \<and> inputs_of a2 = inputs_of a"
proof -
  from assms obtain E where E: "obsm b ''X_pca'' = Some E"
    by (auto simp: merge_back_def adata_use_def split: option.splits)
  let ?a0 = "a\<lparr>obsm := (obsm a)(''X_pca'' \<mapsto> E)\<rparr>"
  from assms E obtain a1 where m: "merge_PCs k (Some b) ?a0 = Inr a1"
    and a2: "a2 = (case uns b ''pca'' of None \<Rightarrow> a1
                    | Some v \<Rightarrow> a1\<lparr>uns := (uns a1)(''pca'' \<mapsto> v)\<rparr>)"
    by (auto simp: merge_back_def adata_use_def split: sum.splits option.splits)
  show ?thesis
  proof (cases "varm b ''PCs''")
    case None
    with m have a1: "a1 = ?a0" by (simp add: merge_PCs_def adata_use_def)
    show ?thesis
      using None E
      by (cases "uns b ''pca''")
        (simp_all add: a2 a1 merge_back_def merge_PCs_def adata_use_def inputs_of_def)
  next
    case (Some L)
    with m obtain Z flags P where Z: "np_zeros (n_vars a) k = Inr Z"
      and fl: "var a ''highly_variable'' = Some flags"
      and P: "set_rows_mask Z flags L = Inr P"
      and a1: "a1 = ?a0\<lparr>varm := (varm a)(''PCs'' \<mapsto> P)\<rparr>"
      by (auto simp: merge_PCs_def adata_use_def Let_def n_vars_def
          split: sum.splits option.splits)
    show ?thesis
      using Some E Z fl P
      by (cases "uns b ''pca''")
        (simp_all add: a2 a1 merge_back_def merge_PCs_def adata_use_def inputs_of_def
          n_vars_def)
  qed
qed

lemma pure_delegateD:
  assumes "pure_delegate pca" "inputs_of a = inputs_of a'" "pca a k s r i = Inr b"
  shows "inputs_of b = inputs_of a"
    "\<exists>b'. pca a' k s r i = Inr b' \<and> results_of b' = results_of b"
  using assms unfolding pure_delegate_def by blast+

lemma hv_requested_inputs:
  "inputs_of a' = inputs_of a \<Longrightarrow> hv_requested args a' = hv_requested args a"
  using inputs_of_eqD(2)[of a' a] by (simp add: hv_requested_def)

lemma axis_pca_pure: "pure_delegate axis_pca"
  unfolding pure_delegate_def
proof (intro allI impI)
  fix a a' :: adata and k :: int and s :: string and r :: int and i :: bool and b :: adata
  assume e: "inputs_of a = inputs_of a'" and d: "axis_pca a k s r i = Inr b"
  have x: "X a' = X a" using inputs_of_eqD(1)[OF e] by simp
  from d show "inputs_of b = inputs_of a \<and>
      (\<exists>b'. axis_pca a' k s r i = Inr b' \<and> results_of b' = results_of b)"
    by (auto simp: axis_pca_def inputs_of_def results_of_def n_obs_def n_vars_def x
        split: if_splits)
qed

lemma ex_run_again:
  "run_pca axis_pca ex_args ex_state_after =
     Inr (RetNone, ex_state_after\<lparr>out := [PrintRunning 2, PrintUsing 2,
                                           PrintRunning 2, PrintUsing 2]\<rparr>)"
  apply (simp add: run_pca_def pick_adata_def ex_state_after_def ex_state_def ex_args_def
      select_genes_def hv_requested_def Let_def)
  apply (simp add: ex_result_def ex_adata_def subset_vars_def n_vars_def select_cols_def
      select_mask_def count_true_def)
  apply (simp add: call_pca_def axis_pca_def known_solvers_def n_obs_def n_vars_def upt_rec
      axis_ratio_def hv_requested_def merge_back_def adata_use_def merge_PCs_def np_zeros_def
      set_rows_mask_def broadcast_rows_def count_true_def pca_return_def select_rows_def
      select_mask_def eval_nat_numeral)
  done

text \<open>
  Claim C8. Let the external routine be a function of the data and the parameters (the
  random seed among them) that overwrites its three result slots. When an in-place call
  of \<open>run_pca\<close> has returned, the same call again returns the same value and leaves the
  store, and so the held object, exactly as the first call left it.
\<close>

theorem run_pca_idempotent:
  assumes "pure_delegate pca" and "inplace args" and "self_adata st < length (heap st)"
    and "run_pca pca args st = Inr (rv, st1)"
  shows "\<exists>st2. run_pca pca args st1 = Inr (rv, st2) \<and> heap st2 = heap st1 \<and>
           self_adata st2 = self_adata st1"
proof -
  let ?k = "n_comps args"
  let ?call = "\<lambda>x. pca x (n_comps args) (svd_solver args) (random_state args) (return_info args)"
  let ?s = "self_adata st"
  let ?a = "heap st ! ?s"
  from assms(4) obtain r st0 vu evs vu1 a1 a2 where
    p: "pick_adata args (st\<lparr>out := out st @ [PrintRunning ?k]\<rparr>) = (r, st0)"
    and s: "select_genes args (heap st0 ! r) = Inr (vu, evs)"
    and c: "call_pca pca args vu (heap st0 ! r) = Inr (vu1, a1)"
    and m: "(if hv_requested args a1 then merge_back ?k vu1 a1 else Inr a1) = Inr a2"
    and rv: "rv = pca_return args r a2"
    and st1: "st1 = st0\<lparr>heap := (heap st0)[r := a2], out := out st0 @ evs\<rparr>"
    by (rule run_pca_InrE)
  have r: "r = ?s" and st0: "st0 = st\<lparr>out := out st @ [PrintRunning ?k]\<rparr>"
    using p assms(2) by (auto simp: pick_adata_def)
  have a: "heap st0 ! r = ?a" by (simp add: r st0)
  have h1: "heap st1 = (heap st)[?s := a2]" and s1: "self_adata st1 = ?s"
    by (simp_all add: st1 st0 r)
  let ?st1' = "st1\<lparr>out := out st1 @ [PrintRunning ?k]\<rparr>"
  have a21: "heap ?st1' ! ?s = a2" using assms(3) by (simp add: h1)
  have p2: "pick_adata args ?st1' = (?s, ?st1')"
    using assms(2) by (simp add: pick_adata_def s1)
  have "\<exists>vu' evs' vu1'. select_genes args a2 = Inr (vu', evs') \<and>
      call_pca pca args vu' a2 = Inr (vu1', a2) \<and>
      (if hv_requested args a2 then merge_back ?k vu1' a2 else Inr a2) = Inr a2"
  proof (cases vu)
    case None
    have nhv: "\<not> hv_requested args ?a" using s None
      by (auto simp: a select_genes_def Let_def split: if_splits sum.splits)
    from c None have d: "?call ?a = Inr a1"
      by (auto simp: a call_pca_def split: sum.splits)
    have i1: "inputs_of a1 = inputs_of ?a"
      by (rule pure_delegateD(1)[OF assms(1) refl d])
    have nhv1: "\<not> hv_requested args a1" using nhv hv_requested_inputs[OF i1] by simp
    with m have a2: "a2 = a1" by simp
    from pure_delegateD(2)[OF assms(1) i1[symmetric] d] obtain b' where
      d2: "?call a1 = Inr b'" and r2: "results_of b' = results_of a1" by blast
    have "inputs_of b' = inputs_of a1"
      by (rule pure_delegateD(1)[OF assms(1) refl d2])
    then have "b' = a1" using r2 by (rule adata_eqI)
    with d2 have "call_pca pca args None a2 = Inr (None, a2)"
      by (simp add: call_pca_def a2)
    moreover have "select_genes args a2 = Inr (None, [])"
      using nhv1 by (simp add: select_genes_def a2)
    ultimately show ?thesis using nhv1 a2 by auto
  next
    case (Some u)
    with s obtain flags where fl: "var ?a ''highly_variable'' = Some flags"
      and hv: "hv_requested args ?a" and sub: "subset_vars ?a flags = Inr u"
      by (auto simp: a select_genes_def Let_def hv_requested_def split: if_splits sum.splits)
    from c Some obtain b where d: "?call u = Inr b" and c1: "vu1 = Some b" "a1 = ?a"
      by (auto simp: a call_pca_def split: sum.splits)
    from m hv c1 have mb: "merge_back ?k (Some b) ?a = Inr a2" by simp
    from merge_back_view_again[OF mb] have mb2: "merge_back ?k (Some b) a2 = Inr a2"
      and i2: "inputs_of a2 = inputs_of ?a" by blast+
    have hv2: "hv_requested args a2" using hv hv_requested_inputs[OF i2] by simp
    have fl2: "var a2 ''highly_variable'' = Some flags"
      using fl inputs_of_eqD(2)[OF i2] by simp
    from subset_vars_inputs[OF i2 sub] obtain u2 where
      sub2: "subset_vars a2 flags = Inr u2" and iu: "inputs_of u2 = inputs_of u" by blast
    from pure_delegateD(2)[OF assms(1) iu[symmetric] d] obtain b2 where
      d2: "?call u2 = Inr b2" and r2: "results_of b2 = results_of b" by blast
    have "select_genes args a2 = Inr (Some u2, [PrintUsing (count_true flags)])"
      using hv2 fl2 sub2 by (simp add: select_genes_def)
    moreover have "call_pca pca args (Some u2) a2 = Inr (Some b2, a2)"
      using d2 by (simp add: call_pca_def)
    moreover have "merge_back ?k (Some b2) a2 = Inr a2"
      using mb2 merge_back_results[OF r2] by simp
    ultimately show ?thesis using hv2 by auto
  qed
  then obtain vu' evs' vu1' where s2: "select_genes args (heap ?st1' ! ?s) = Inr (vu', evs')"
    and c2: "call_pca pca args vu' (heap ?st1' ! ?s) = Inr (vu1', a2)"
    and m2: "(if hv_requested args a2 then merge_back ?k vu1' a2 else Inr a2) = Inr a2"
    unfolding a21 by blast
  have "run_pca pca args st1 =
      Inr (pca_return args ?s a2, ?st1'\<lparr>heap := (heap ?st1')[?s := a2], out := out ?st1' @ evs'\<rparr>)"
    by (rule run_pca_InrI[OF p2 s2 c2 m2])
  then show ?thesis by (simp add: rv r h1 s1)
qed

theorem run_pca_idempotent_witness:
  "pure_delegate axis_pca \<and> inplace ex_args \<and> self_adata ex_state < length (heap ex_state) \<and>
   run_pca axis_pca ex_args ex_state = Inr (RetNone, ex_state_after) \<and>
   (\<exists>st2. run_pca axis_pca ex_args ex_state_after = Inr (RetNone, st2) \<and>
          heap st2 = heap ex_state_after \<and> self_adata st2 = self_adata ex_state_after) \<and>
   run_pca axis_pca ex_args ex_state_after =
     Inr (RetNone, ex_state_after\<lparr>out := [PrintRunning 2, PrintUsing 2,
                                           PrintRunning 2, PrintUsing 2]\<rparr>)"
proof -
  have i: "inplace ex_args" by (simp add: ex_args_def)
  show ?thesis
    using run_pca_idempotent[OF axis_pca_pure i ex_self_valid ex_run]
      axis_pca_pure i ex_self_valid ex_run ex_run_again by blast
qed

section \<open>The variance plot\<close>

lemma length_cumsum_from: "length (cumsum_from acc xs) = length xs"
  by (induction xs arbitrary: acc) auto

lemma length_np_cumsum: "length (np_cumsum xs) = length xs"
  by (simp add: np_cumsum_def length_cumsum_from)

lemma length_range_from_1: "length (range_from_1 n) = nat n"
  by (simp add: range_from_1_def)

lemma length_py_slice_to:
  "0 \<le> n \<Longrightarrow> n \<le> int (length xs) \<Longrightarrow> length (py_slice_to xs n) = nat n"
  by (simp add: py_slice_to_def)

lemma clamp_n_pcs_bounds:
  "clamp_n_pcs n v \<le> int (length v)" "0 \<le> n \<Longrightarrow> 0 \<le> clamp_n_pcs n v"
  by (simp_all add: clamp_n_pcs_def)

lemma ax_plot_ok:
  "length xs = length ys \<Longrightarrow> ax_plot xs ys ax = Inr (ax\<lparr>plot_x := xs, plot_y := ys\<rparr>)"
  by (simp add: ax_plot_def)

lemma ax_plot_error:
  "ax_plot xs ys ax = Inl e \<Longrightarrow> e = ValueError ''x and y must have same first dimension''"
  by (auto simp: ax_plot_def split: if_splits)

lemma variance_figure_error:
  "variance_figure args v = Inl e \<Longrightarrow> e = ValueError ''x and y must have same first dimension''"
  by (auto simp: variance_figure_def Let_def split: sum.splits dest: ax_plot_error)

lemma variance_figure_ok:
  assumes "0 \<le> n_pcs args"
  shows "\<exists>fig. variance_figure args v = Inr fig \<and>
           plot_x (ax1 fig) = range_from_1 (clamp_n_pcs (n_pcs args) v) \<and>
           plot_y (ax1 fig) = map (\<lambda>x. x * 100) (py_slice_to v (clamp_n_pcs (n_pcs args) v)) \<and>
           plot_x (ax2 fig) = range_from_1 (clamp_n_pcs (n_pcs args) v) \<and>
           plot_y (ax2 fig) =
             map (\<lambda>x. x * 100) (py_slice_to (np_cumsum v) (clamp_n_pcs (n_pcs args) v))"
proof -
  let ?n = "clamp_n_pcs (n_pcs args) v"
  have n: "0 \<le> ?n" "?n \<le> int (length v)" using assms clamp_n_pcs_bounds by auto
  have 1: "length (range_from_1 ?n) = length (map (\<lambda>x. x * 100) (py_slice_to v ?n))"
    using n by (simp add: length_range_from_1 length_py_slice_to)
  have 2: "length (range_from_1 ?n) = length (map (\<lambda>x. x * 100) (py_slice_to (np_cumsum v) ?n))"
    using n by (simp add: length_range_from_1 length_py_slice_to length_np_cumsum)
  show ?thesis
    by (simp add: variance_figure_def Let_def ax_plot_ok[OF 1] ax_plot_ok[OF 2])
qed


lemma ex_after_info: "uns (heap ex_state_after ! self_adata ex_state_after) ''pca'' = Some ex_info"
  by (simp add: ex_state_after_def ex_state_def ex_result_def ex_info_def)

lemma ex_info_ratio: "ex_info ''variance_ratio'' = Some [1, 0]"
  by (simp add: ex_info_def)

text \<open>
  Claim C5. \<open>plot_pca_variance\<close> raises the invalid-state error, a \<open>ValueError\<close> with
  the message of line 241, if and only if the variance information is absent from the
  held object: \<open>'pca'\<close> is not in \<open>uns\<close>, or \<open>'variance_ratio'\<close> is not in \<open>uns['pca']\<close>.
\<close>

theorem plot_invalid_state_iff:
  "plot_pca_variance args st = Inl (ValueError invalid_state_msg) \<longleftrightarrow>
     (case uns (heap st ! self_adata st) ''pca'' of
        None \<Rightarrow> True
      | Some info \<Rightarrow> info ''variance_ratio'' = None)"
proof (cases "uns (heap st ! self_adata st) ''pca''")
  case None
  then show ?thesis by (simp add: plot_pca_variance_def)
next
  case (Some info)
  show ?thesis
  proof (cases "info ''variance_ratio''")
    case None
    with Some show ?thesis by (simp add: plot_pca_variance_def)
  next
    case (Some v)
    have "variance_figure args v \<noteq> Inl (ValueError invalid_state_msg)"
      using variance_figure_error[of args v] by (auto simp: invalid_state_msg_def)
    with Some \<open>uns (heap st ! self_adata st) ''pca'' = Some info\<close> show ?thesis
      by (auto simp: plot_pca_variance_def split: sum.splits)
  qed
qed


theorem plot_invalid_state_iff_witness:
  "uns (heap ex_state ! self_adata ex_state) ''pca'' = None \<and>
   plot_pca_variance ex_plot_args ex_state = Inl (ValueError invalid_state_msg) \<and>
   uns (heap ex_state_after ! self_adata ex_state_after) ''pca'' = Some ex_info \<and>
   ex_info ''variance_ratio'' = Some [1, 0] \<and>
   plot_pca_variance ex_plot_args ex_state_after \<noteq> Inl (ValueError invalid_state_msg)"
proof -
  have n: "uns (heap ex_state ! self_adata ex_state) ''pca'' = None"
    by (simp add: ex_state_def ex_adata_def)
  have "plot_pca_variance ex_plot_args ex_state = Inl (ValueError invalid_state_msg)"
    using plot_invalid_state_iff[of ex_plot_args ex_state] n by simp
  moreover have "plot_pca_variance ex_plot_args ex_state_after
      \<noteq> Inl (ValueError invalid_state_msg)"
    using plot_invalid_state_iff[of ex_plot_args ex_state_after] ex_after_info ex_info_ratio
    by simp
  ultimately show ?thesis using n ex_after_info ex_info_ratio by blast
qed

text \<open>
  Claim C6. For a held object that carries the variance information: whenever
  \<open>plot_pca_variance\<close> returns, it has saved the figure to the given path, or displayed
  it when no path was given, and it returns the figure exactly when \<open>return_fig\<close> is
  set; and it does return whenever the requested number of components is not negative.
\<close>

theorem plot_shows_or_saves:
  assumes "uns (heap st ! self_adata st) ''pca'' = Some info"
    and "info ''variance_ratio'' = Some v"
  shows "(\<forall>res st'. plot_pca_variance args st = Inr (res, st') \<longrightarrow>
           (\<exists>fig. res = (if return_fig args then Some fig else None) \<and>
              st' = st\<lparr>out := out st @
                     [case save_path args of None \<Rightarrow> Show fig | Some p \<Rightarrow> Savefig p fig]\<rparr>)) \<and>
         (0 \<le> n_pcs args \<longrightarrow> (\<exists>res st'. plot_pca_variance args st = Inr (res, st')))"
proof -
  have "\<exists>res st'. plot_pca_variance args st = Inr (res, st')" if "0 \<le> n_pcs args"
  proof -
    from variance_figure_ok[OF that, of v] obtain fig where "variance_figure args v = Inr fig"
      by blast
    then show ?thesis using assms by (simp add: plot_pca_variance_def finish_figure_def Let_def)
  qed
  moreover have "\<exists>fig. res = (if return_fig args then Some fig else None) \<and>
              st' = st\<lparr>out := out st @
                     [case save_path args of None \<Rightarrow> Show fig | Some p \<Rightarrow> Savefig p fig]\<rparr>"
    if "plot_pca_variance args st = Inr (res, st')" for res st'
    using that assms
    by (auto simp: plot_pca_variance_def finish_figure_def Let_def split: sum.splits)
  ultimately show ?thesis by blast
qed


theorem plot_shows_or_saves_witness:
  "uns (heap ex_state_after ! self_adata ex_state_after) ''pca'' = Some ex_info \<and>
   ex_info ''variance_ratio'' = Some [1, 0] \<and> 0 \<le> n_pcs save_plot_args \<and>
   0 \<le> n_pcs ex_plot_args \<and>
   (\<exists>fig. plot_pca_variance save_plot_args ex_state_after =
      Inr (Some fig, ex_state_after\<lparr>out := out ex_state_after @
                                          [Savefig ''pca_variance.png'' fig]\<rparr>)) \<and>
   (\<exists>fig. plot_pca_variance ex_plot_args ex_state_after =
      Inr (None, ex_state_after\<lparr>out := out ex_state_after @ [Show fig]\<rparr>))"
proof -
  have n: "0 \<le> n_pcs save_plot_args" "0 \<le> n_pcs ex_plot_args"
    by (simp_all add: save_plot_args_def ex_plot_args_def)
  note t1 = plot_shows_or_saves[OF ex_after_info ex_info_ratio, of save_plot_args]
  note t2 = plot_shows_or_saves[OF ex_after_info ex_info_ratio, of ex_plot_args]
  from t1 n(1) obtain res st' where
    r1: "plot_pca_variance save_plot_args ex_state_after = Inr (res, st')" by blast
  with t1 obtain fig where "res = (if return_fig save_plot_args then Some fig else None)"
    "st' = ex_state_after\<lparr>out := out ex_state_after @
             [case save_path save_plot_args of None \<Rightarrow> Show fig | Some p \<Rightarrow> Savefig p fig]\<rparr>"
    by blast
  with r1 have s1: "\<exists>fig. plot_pca_variance save_plot_args ex_state_after =
      Inr (Some fig, ex_state_after\<lparr>out := out ex_state_after @
                                          [Savefig ''pca_variance.png'' fig]\<rparr>)"
    by (auto simp: save_plot_args_def ex_plot_args_def)
  from t2 n(2) obtain res2 st2 where
    r2: "plot_pca_variance ex_plot_args ex_state_after = Inr (res2, st2)" by blast
  with t2 obtain fig2 where "res2 = (if return_fig ex_plot_args then Some fig2 else None)"
    "st2 = ex_state_after\<lparr>out := out ex_state_after @
             [case save_path ex_plot_args of None \<Rightarrow> Show fig2 | Some p \<Rightarrow> Savefig p fig2]\<rparr>"
    by blast
  with r2 have s2: "\<exists>fig. plot_pca_variance ex_plot_args ex_state_after =
      Inr (None, ex_state_after\<lparr>out := out ex_state_after @ [Show fig]\<rparr>)"
    by (auto simp: ex_plot_args_def)
  show ?thesis using ex_after_info ex_info_ratio n s1 s2 by blast
qed



end
